theory Spec2Isabelle
  imports Complex_Main
begin

section \<open>CODa dataset layer: shallow embedding of \<open>pcdet/datasets/coda/coda_dataset.py\<close>\<close>

text \<open>
  Conventions of the embedding.
  \<^item> Python exceptions are values of \<open>error\<close>; a function that can raise returns
    \<open>error + 'a\<close> with \<open>Inl\<close> for the exception.
  \<^item> NumPy float arrays are lists of \<open>real\<close>; a two-dimensional array is the list of its
    rows, a row of fixed width being a tuple. Finite floats are read as the reals they
    denote: comparisons are exact, \<open>NaN\<close> and infinities are not represented. The
    arithmetic of the balanced resampler, whose result is truncated to a number of
    draws, is rounded to double precision (\<open>fl64\<close>); the geometry is taken without
    rounding.
  \<^item> \<open>int32\<close> arrays are lists of \<open>int\<close>; where the code stores a wider integer into
    such an array the wrap-around is written out (\<open>to_int32\<close>).
  \<^item> The collaborators that are not part of this file of the repository (calibration
    transforms, hull tests, label parser, evaluation routine, random source) are
    parameters of the functions that call them.
\<close>

subsection \<open>Errors\<close>

datatype error =
    AssertionError string
  | KeyError string
  | IndexError
  | ZeroDivisionError
  | AttributeError
  | ValueError
  | TypeError

text \<open>Sequencing: an exception of the first computation ends the whole one.\<close>

definition on_success :: "error + 'a \<Rightarrow> ('a \<Rightarrow> error + 'b) \<Rightarrow> error + 'b" where
  "on_success m f = (case m of Inl e \<Rightarrow> Inl e | Inr x \<Rightarrow> f x)"

subsection \<open>Data model\<close>

type_synonym vec3 = "real \<times> real \<times> real"

text \<open>One row of the raw point cloud: \<open>x, y, z, intensity\<close> (\<open>reshape(-1, 4)\<close>).\<close>

type_synonym point = "real \<times> real \<times> real \<times> real"

type_synonym bbox2d = "real \<times> real \<times> real \<times> real"

definition xyz :: "point \<Rightarrow> vec3" where
  "xyz p = (case p of (x, y, z, i) \<Rightarrow> (x, y, z))"

text \<open>
  Modelled from the spec: the fields of \<open>object3d_kitti.Object3d\<close>, the parsed label of
  one object, as \<open>process_single_scene\<close> reads them.
\<close>

record object3d =
  cls_type :: string
  truncation :: real
  occlusion :: real
  obj_alpha :: real
  box2d :: bbox2d
  obj_h :: real
  obj_w :: real
  obj_l :: real
  loc :: vec3
  ry :: real
  obj_score :: real
  level :: int

text \<open>
  Modelled from the spec: a \<open>calibration_kitti.Calibration\<close> object, its three matrices and
  the transforms the dataset calls. The transforms are deterministic maps applied to each
  row of their argument (spec 4.1); \<open>rect_to_img\<close> gives the pixel and the depth of a point.
\<close>

record calibration =
  P2 :: "real list list"
  R0 :: "real list list"
  V2C :: "real list list"
  rect_to_img :: "vec3 \<Rightarrow> (real \<times> real) \<times> real"
  lidar_to_rect :: "vec3 \<Rightarrow> vec3"
  rect_to_lidar :: "vec3 \<Rightarrow> vec3"

text \<open>A row \<open>[x, y, z, l, w, h, yaw]\<close> of \<open>gt_boxes_lidar\<close>.\<close>

record box3d =
  center :: vec3
  box_l :: real
  box_w :: real
  box_h :: real
  yaw :: real

text \<open>
  The collaborators of \<open>box_utils\<close> and \<open>roiaware_pool3d_utils\<close>, per point and per box:
  \<open>in_hull p (boxes_to_corners_3d b)\<close> is the entry of the hull mask,
  \<open>points_in_boxes_cpu p b\<close> the entry of the integer mask of the oriented-box test.
\<close>

record 'k box_ops =
  boxes_to_corners_3d :: "box3d \<Rightarrow> 'k"
  in_hull :: "vec3 \<Rightarrow> 'k \<Rightarrow> bool"
  points_in_boxes_cpu :: "vec3 \<Rightarrow> box3d \<Rightarrow> int"

record annotations =
  name :: "string list"
  truncated :: "real list"
  occluded :: "real list"
  alpha :: "real list"
  bbox :: "bbox2d list"
  dimensions :: "vec3 list"
  location :: "vec3 list"
  rotation_y :: "real list"
  score :: "real list"
  difficulty :: "int list"
  index :: "int list"
  gt_boxes_lidar :: "box3d list"
  num_points_in_gt :: "int list option"

record calib_info =
  ci_P2 :: "real list list"
  ci_R0_rect :: "real list list"
  ci_Tr_velo_to_cam :: "real list list"

record info =
  pc_num_features :: nat
  pc_lidar_idx :: string
  image_idx :: string
  image_shape :: "int \<times> int"
  calib :: calib_info
  annos :: "annotations option"

subsection \<open>Files and dataset state\<close>

text \<open>
  The per-frame files, by path. A path is present exactly when the map is defined there;
  the value is what the reader of that kind of file returns (\<open>np.fromfile(...).reshape(-1, 4)\<close>,
  \<open>io.imread(...).shape[:2]\<close>, \<open>get_objects_from_label\<close>, \<open>Calibration\<close>).
\<close>

record files =
  lidar_files :: "string \<rightharpoonup> point list"
  image_files :: "string \<rightharpoonup> int \<times> int"
  label_files :: "string \<rightharpoonup> object3d list"
  calib_files :: "string \<rightharpoonup> calibration"

record dataset =
  root_path :: string
  root_split_path :: string
  ds_split :: string
  use_sorted_imageset :: bool
  lidar_idx_subdir_map :: "string \<rightharpoonup> string"
  sample_id_list :: "string list option"
  class_names :: "string list option"
  has_logger :: bool
  coda_infos :: "info list"

text \<open>\<open>pathlib\<close>'s \<open>a / b\<close> for a relative \<open>b\<close>; frame ids are file stems.\<close>

definition path_join :: "string \<Rightarrow> string \<Rightarrow> string" where
  "path_join a b = a @ ''/'' @ b"

text \<open>
  The first lines of every accessor: the split directory, or the directory recorded for the
  frame when the sorted image set is in use (a missing key raises \<open>KeyError\<close>).
\<close>

definition frame_root :: "dataset \<Rightarrow> string \<Rightarrow> error + string" where
  "frame_root ds idx =
     (if use_sorted_imageset ds then
        (case lidar_idx_subdir_map ds idx of
           None \<Rightarrow> Inl (KeyError idx)
         | Some sub \<Rightarrow> Inr (path_join (root_path ds) sub))
      else Inr (root_split_path ds))"

definition get_lidar :: "dataset \<Rightarrow> files \<Rightarrow> string \<Rightarrow> error + point list" where
  "get_lidar ds fs idx =
     (case frame_root ds idx of
        Inl e \<Rightarrow> Inl e
      | Inr root_dir \<Rightarrow>
          (let lidar_file = path_join (path_join root_dir ''velodyne'') (idx @ ''.bin'') in
           case lidar_files fs lidar_file of
             None \<Rightarrow> Inl (AssertionError (''Lidar files '' @ lidar_file @ '' ''))
           | Some pts \<Rightarrow> Inr pts))"

definition get_image_shape :: "dataset \<Rightarrow> files \<Rightarrow> string \<Rightarrow> error + int \<times> int" where
  "get_image_shape ds fs idx =
     (case frame_root ds idx of
        Inl e \<Rightarrow> Inl e
      | Inr root_dir \<Rightarrow>
          (let img_file = path_join (path_join root_dir ''image_0'') (idx @ ''.jpg'') in
           case image_files fs img_file of
             None \<Rightarrow> Inl (AssertionError (''Image file '' @ img_file @ '' does not exist''))
           | Some shp \<Rightarrow> Inr shp))"

definition get_label :: "dataset \<Rightarrow> files \<Rightarrow> string \<Rightarrow> error + object3d list" where
  "get_label ds fs idx =
     (case frame_root ds idx of
        Inl e \<Rightarrow> Inl e
      | Inr root_dir \<Rightarrow>
          (let label_file = path_join (path_join root_dir ''label_0'') (idx @ ''.txt'') in
           case label_files fs label_file of
             None \<Rightarrow> Inl (AssertionError (''Label file '' @ label_file @ '' does not exist''))
           | Some objs \<Rightarrow> Inr objs))"

text \<open>The assertion of \<open>get_calib\<close> has no message.\<close>

definition get_calib :: "dataset \<Rightarrow> files \<Rightarrow> string \<Rightarrow> error + calibration" where
  "get_calib ds fs idx =
     (case frame_root ds idx of
        Inl e \<Rightarrow> Inl e
      | Inr root_dir \<Rightarrow>
          (let calib_file = path_join (path_join root_dir ''calib'') (idx @ ''.txt'') in
           case calib_files fs calib_file of
             None \<Rightarrow> Inl (AssertionError [])
           | Some c \<Rightarrow> Inr c))"

subsection \<open>FOV filter\<close>

text \<open>
  \<open>get_fov_flag\<close>: \<open>img_shape\<close> is \<open>(height, width)\<close>, so \<open>img_shape[1]\<close> bounds the pixel
  \<open>x\<close> and \<open>img_shape[0]\<close> the pixel \<open>y\<close>.
\<close>

definition fov_point :: "calibration \<Rightarrow> int \<times> int \<Rightarrow> int \<Rightarrow> vec3 \<Rightarrow> bool" where
  "fov_point c img_shape margin p =
     (case rect_to_img c p of
        ((u, v), depth) \<Rightarrow>
          (let val_flag_1 = (u \<ge> real_of_int (0 - margin) \<and> u < real_of_int (snd img_shape + margin));
               val_flag_2 = (v \<ge> real_of_int (0 - margin) \<and> v < real_of_int (fst img_shape + margin));
               val_flag_merge = (val_flag_1 \<and> val_flag_2)
           in val_flag_merge \<and> depth \<ge> 0))"

definition get_fov_flag :: "vec3 list \<Rightarrow> int \<times> int \<Rightarrow> calibration \<Rightarrow> int \<Rightarrow> bool list" where
  "get_fov_flag pts_rect img_shape c margin = map (fov_point c img_shape margin) pts_rect"

text \<open>Boolean-mask indexing \<open>a[flag]\<close> for a mask as long as the array.\<close>

definition mask_select :: "'a list \<Rightarrow> bool list \<Rightarrow> 'a list" where
  "mask_select xs flags = map fst (filter snd (zip xs flags))"

subsection \<open>Info builder\<close>

text \<open>A value stored into an \<open>int32\<close> array: the low 32 bits, read as signed.\<close>

definition to_int32 :: "int \<Rightarrow> int" where
  "to_int32 n = (n + 2147483648) mod 4294967296 - 2147483648"

text \<open>
  The two branches of \<open>if len(obj_list) > 0\<close>: the ten raw arrays, one entry per object
  of the label file. The fields that the code adds later are empty here.
\<close>

definition raw_annotations :: "object3d list \<Rightarrow> annotations" where
  "raw_annotations obj_list =
     (if length obj_list > 0 then
        \<lparr> name = map cls_type obj_list,
          truncated = map truncation obj_list,
          occluded = map occlusion obj_list,
          alpha = map obj_alpha obj_list,
          bbox = map box2d obj_list,
          dimensions = map (\<lambda>obj. (obj_l obj, obj_h obj, obj_w obj)) obj_list,
          location = map loc obj_list,
          rotation_y = map ry obj_list,
          score = map obj_score obj_list,
          difficulty = map level obj_list,
          index = [], gt_boxes_lidar = [], num_points_in_gt = None \<rparr>
      else
        \<lparr> name = [], truncated = [], occluded = [], alpha = [],
          bbox = [], dimensions = [], location = [],
          rotation_y = [], score = [], difficulty = [],
          index = [], gt_boxes_lidar = [], num_points_in_gt = None \<rparr>)"

text \<open>\<open>np.argwhere(np.isin(names, ['DontCare'], invert=True)).reshape(-1,)\<close>\<close>

definition non_ignored_index :: "object3d list \<Rightarrow> nat list" where
  "non_ignored_index obj_list =
     filter (\<lambda>i. cls_type (obj_list ! i) \<noteq> ''DontCare'') [0..<length obj_list]"

text \<open>
  \<open>loc_lidar\<close>, the shift of \<open>z\<close> by half the height, and the rows
  \<open>[x, y, z, l, w, h, -(pi / 2 + ry)]\<close>; \<open>dims\<close> rows are \<open>(l, h, w)\<close>.
\<close>

definition lidar_box :: "calibration \<Rightarrow> vec3 \<Rightarrow> vec3 \<Rightarrow> real \<Rightarrow> box3d" where
  "lidar_box c p d r =
     (case d of (l, h, w) \<Rightarrow>
      case rect_to_lidar c p of (x, y, z) \<Rightarrow>
        \<lparr> center = (x, y, z + h / 2), box_l = l, box_w = w, box_h = h,
          yaw = - (pi / 2 + r) \<rparr>)"

definition make_gt_boxes_lidar :: "calibration \<Rightarrow> annotations \<Rightarrow> nat list \<Rightarrow> box3d list" where
  "make_gt_boxes_lidar c a idx =
     (let locs = map (\<lambda>i. location a ! i) idx;
          dims = map (\<lambda>i. dimensions a ! i) idx;
          rots = map (\<lambda>i. rotation_y a ! i) idx
      in map (\<lambda>(p, d, r). lidar_box c p d r) (zip locs (zip dims rots)))"

text \<open>The keys of the annotation dictionary at the time of the check, in insertion order,
  each with \<open>len\<close> of its array.\<close>

definition annos_keys :: "annotations \<Rightarrow> (string \<times> nat) list" where
  "annos_keys a =
     [(''name'', length (name a)), (''truncated'', length (truncated a)),
      (''occluded'', length (occluded a)), (''alpha'', length (alpha a)),
      (''bbox'', length (bbox a)), (''dimensions'', length (dimensions a)),
      (''location'', length (location a)), (''rotation_y'', length (rotation_y a)),
      (''score'', length (score a)), (''difficulty'', length (difficulty a)),
      (''index'', length (index a)), (''gt_boxes_lidar'', length (gt_boxes_lidar a))]"

text \<open>The loop that asserts that every key but \<open>index\<close> and \<open>gt_boxes_lidar\<close> has the
  length of the key before it.\<close>

fun check_keys :: "(string \<times> nat) option \<Rightarrow> (string \<times> nat) list \<Rightarrow> error + unit" where
  "check_keys prev_key [] = Inr ()"
| "check_keys prev_key ((key, n) # rest) =
     (if key = ''index'' \<or> key = ''gt_boxes_lidar'' then check_keys prev_key rest
      else
        (let prev = (case prev_key of None \<Rightarrow> (key, n) | Some q \<Rightarrow> q) in
         if n = snd prev then check_keys (Some (key, n)) rest
         else Inl (AssertionError (''Keys '' @ key @ '' and '' @ fst prev
                 @ '' do not                         match''))))"

text \<open>The loop \<open>for k in range(num_objects)\<close> that fills \<open>num_points_in_gt\<close>.\<close>

fun count_inside :: "'k box_ops \<Rightarrow> point list \<Rightarrow> 'k list \<Rightarrow> nat list \<Rightarrow> int list \<Rightarrow> error + int list" where
  "count_inside ops pts_fov corners_lidar [] acc = Inr acc"
| "count_inside ops pts_fov corners_lidar (k # ks) acc =
     (if k < length corners_lidar \<and> k < length acc then
        (let flag = map (\<lambda>p. in_hull ops (xyz p) (corners_lidar ! k)) pts_fov in
         count_inside ops pts_fov corners_lidar ks
           (acc[k := to_int32 (int (length (filter (\<lambda>b. b) flag)))]))
      else Inl IndexError)"

text \<open>The calibration as stored in the info record: every matrix padded to \<open>4 x 4\<close>.\<close>

definition make_calib_info :: "calibration \<Rightarrow> calib_info" where
  "make_calib_info c =
     \<lparr> ci_P2 = P2 c @ [[0, 0, 0, 1]],
       ci_R0_rect = map (\<lambda>row. row @ [0]) (R0 c) @ [[0, 0, 0, 1]],
       ci_Tr_velo_to_cam = V2C c @ [[0, 0, 0, 1]] \<rparr>"

definition process_single_scene ::
  "'k box_ops \<Rightarrow> dataset \<Rightarrow> files \<Rightarrow> bool \<Rightarrow> bool \<Rightarrow> string \<Rightarrow> error + info" where
  "process_single_scene ops ds fs has_label count_inside_pts sample_idx =
     on_success (get_image_shape ds fs sample_idx) (\<lambda>shp.
     on_success (get_calib ds fs sample_idx) (\<lambda>c.
       (let info0 = \<lparr> pc_num_features = 4, pc_lidar_idx = sample_idx,
                       image_idx = sample_idx, image_shape = shp,
                       calib = make_calib_info c, annos = None \<rparr>
        in
        if has_label then
          on_success (get_label ds fs sample_idx) (\<lambda>obj_list.
            (let annotations0 = raw_annotations obj_list;
                 num_objects = length (filter (\<lambda>obj. cls_type obj \<noteq> ''DontCare'') obj_list);
                 num_gt = length (name annotations0);
                 idx = non_ignored_index obj_list;
                 boxes = make_gt_boxes_lidar c annotations0 idx;
                 annotations = annotations0
                   \<lparr> index := map (\<lambda>i. to_int32 (int i)) idx, gt_boxes_lidar := boxes \<rparr>
             in
             on_success (check_keys None (annos_keys annotations)) (\<lambda>u.
               if count_inside_pts then
                 on_success (get_lidar ds fs sample_idx) (\<lambda>points.
                 on_success (get_calib ds fs sample_idx) (\<lambda>c2.
                   (let pts_rect = map (\<lambda>p. lidar_to_rect c2 (xyz p)) points;
                        fov_flag = get_fov_flag pts_rect shp c2 0;
                        pts_fov = mask_select points fov_flag;
                        corners_lidar = map (boxes_to_corners_3d ops) boxes
                    in
                    on_success
                      (count_inside ops pts_fov corners_lidar [0..<num_objects]
                         (replicate num_gt (- 1)))
                      (\<lambda>counts.
                         Inr (info0 \<lparr> annos :=
                                Some (annotations \<lparr> num_points_in_gt := Some counts \<rparr>) \<rparr>)))))
               else Inr (info0 \<lparr> annos := Some annotations \<rparr>))))
        else Inr info0)))"

text \<open>
  \<open>executor.map\<close> followed by \<open>list\<close>: the records in the order of the ids; the first
  failing frame, in that order, raises and no list is returned.
\<close>

fun collect :: "('a \<Rightarrow> error + 'b) \<Rightarrow> 'a list \<Rightarrow> error + 'b list" where
  "collect f [] = Inr []"
| "collect f (x # xs) =
     (case f x of
        Inl e \<Rightarrow> Inl e
      | Inr y \<Rightarrow> (case collect f xs of Inl e \<Rightarrow> Inl e | Inr ys \<Rightarrow> Inr (y # ys)))"

definition get_infos ::
  "'k box_ops \<Rightarrow> dataset \<Rightarrow> files \<Rightarrow> bool \<Rightarrow> bool \<Rightarrow> string list option \<Rightarrow> error + info list" where
  "get_infos ops ds fs has_label count_inside_pts ids_arg =
     (case (case ids_arg of Some ids \<Rightarrow> Some ids | None \<Rightarrow> sample_id_list ds) of
        None \<Rightarrow> Inl TypeError
      | Some ids \<Rightarrow> collect (process_single_scene ops ds fs has_label count_inside_pts) ids)"

subsection \<open>Double precision\<close>

text \<open>Rounding to the nearest integer, ties to the even one.\<close>

definition round_half_even :: "real \<Rightarrow> int" where
  "round_half_even x =
     (let f = \<lfloor>x\<rfloor>; d = x - of_int f in
      if d < 1 / 2 then f else if d > 1 / 2 then f + 1 else if even f then f else f + 1)"

text \<open>
  The result of an arithmetic operation on Python floats: the exact result rounded to the
  nearest binary64 number, ties to even. A number with \<open>2^e \<le> |x| < 2^(e+1)\<close> is rounded
  to a multiple of \<open>2^(e-52)\<close>. The exponent range is not bounded here: the numbers of the
  resampler are counts, shares and ratios of counts, far from overflow and from the
  subnormal range.
\<close>

definition fl64 :: "real \<Rightarrow> real" where
  "fl64 x =
     (if x = 0 then 0
      else
        (let e = \<lfloor>log 2 \<bar>x\<bar>\<rfloor>;
             ulp = 2 powr (real_of_int e - 52)
         in sgn x * real_of_int (round_half_even (\<bar>x\<bar> / ulp)) * ulp))"

subsection \<open>Balanced resampler\<close>

text \<open>
  A Python dictionary with string keys is an association list in insertion order.
  \<open>dict_keys\<close> gives the keys of \<open>{name: [] for name in class_names}\<close>: a repeated
  name keeps its first position.
\<close>

fun dict_keys :: "string list \<Rightarrow> string list" where
  "dict_keys [] = []"
| "dict_keys (k # ks) = k # dict_keys (filter (\<lambda>k'. k' \<noteq> k) ks)"

text \<open>\<open>d[k].append(v)\<close> for a key that is present.\<close>

definition dict_append :: "string \<Rightarrow> 'v \<Rightarrow> (string \<times> 'v list) list \<Rightarrow> (string \<times> 'v list) list" where
  "dict_append k v d = map (\<lambda>(k', vs). if k' = k then (k', vs @ [v]) else (k', vs)) d"

text \<open>
  The inner loop \<open>for name in set(info['annos']['name'])\<close>: every distinct name once; the
  order of a Python set does not matter here, since each name touches its own key.
\<close>

definition add_info :: "string list \<Rightarrow> info \<Rightarrow> string list \<Rightarrow> (string \<times> info list) list
    \<Rightarrow> (string \<times> info list) list" where
  "add_info cls_names frame names d =
     fold (\<lambda>nm d'. if nm \<in> set cls_names then dict_append nm frame d' else d') (remdups names) d"

fun group_infos :: "string list \<Rightarrow> info list \<Rightarrow> (string \<times> info list) list
    \<Rightarrow> error + (string \<times> info list) list" where
  "group_infos cls_names [] d = Inr d"
| "group_infos cls_names (frame # infos) d =
     (case annos frame of
        None \<Rightarrow> Inl (KeyError ''annos'')
      | Some a \<Rightarrow> group_infos cls_names infos (add_info cls_names frame (name a) d))"

text \<open>Python's \<open>int(x)\<close> on a float: truncation towards zero.\<close>

definition py_int :: "real \<Rightarrow> int" where
  "py_int x = (if x \<ge> 0 then \<lfloor>x\<rfloor> else \<lceil>x\<rceil>)"

text \<open>
  \<open>np.random.choice(a, size)\<close>: \<open>size\<close> draws with replacement. The random source is a tape
  of naturals read from position \<open>pos\<close>; a draw from \<open>n\<close> records reads one cell modulo
  \<open>n\<close>, so every sequence of draws is the behaviour of some tape. The call raises when
  \<open>size\<close> is negative, or when \<open>a\<close> is empty and \<open>size\<close> is not zero.
\<close>

definition random_choice :: "(nat \<Rightarrow> nat) \<Rightarrow> nat \<Rightarrow> 'a list \<Rightarrow> int \<Rightarrow> error + 'a list" where
  "random_choice tape pos a n =
     (if n < 0 then Inl ValueError
      else if a = [] \<and> n \<noteq> 0 then Inl ValueError
      else Inr (map (\<lambda>j. a ! (tape (pos + j) mod length a)) [0..<nat n]))"

text \<open>The loop over \<open>zip(list(cls_infos.values()), ratios)\<close>. The product
  \<open>len(cur_cls_infos) * ratio\<close> is a float product: the length is converted and the
  product rounded.\<close>

fun sample_classes :: "(nat \<Rightarrow> nat) \<Rightarrow> nat \<Rightarrow> (info list \<times> real) list \<Rightarrow> error + info list" where
  "sample_classes tape pos [] = Inr []"
| "sample_classes tape pos ((cur_cls_infos, ratio) # rest) =
     on_success
       (random_choice tape pos cur_cls_infos
          (py_int (fl64 (fl64 (real (length cur_cls_infos)) * ratio))))
       (\<lambda>drawn. on_success (sample_classes tape (pos + length drawn) rest)
          (\<lambda>more. Inr (drawn @ more)))"

text \<open>
  \<open>balanced_infos_resampling\<close>. Every division, sum and product of floats is rounded:
  \<open>len(v) / duplicated_samples\<close> is the correctly rounded quotient of the two integers,
  \<open>1.0 / len(self.class_names)\<close> divides by the converted length, and \<open>1e-3\<close> is the
  double nearest to \<open>1 / 1000\<close>.
\<close>

definition balanced_infos_resampling :: "(nat \<Rightarrow> nat) \<Rightarrow> dataset \<Rightarrow> info list \<Rightarrow> error + info list" where
  "balanced_infos_resampling tape ds infos =
     (case class_names ds of
        None \<Rightarrow> Inr infos
      | Some cls_names \<Rightarrow>
          on_success (group_infos cls_names infos (map (\<lambda>nm. (nm, [])) (dict_keys cls_names)))
            (\<lambda>cls_infos.
              (let duplicated_samples = sum_list (map (\<lambda>(k, v). length v) cls_infos) in
               if cls_infos \<noteq> [] \<and> duplicated_samples = 0 then Inl ZeroDivisionError
               else
                 (let cls_dist = map (\<lambda>(k, v). (k, fl64 (real (length v) / real duplicated_samples)))
                                   cls_infos
                  in
                  if length cls_names = 0 then Inl ZeroDivisionError
                  else
                    (let frac = fl64 (1 / fl64 (real (length cls_names)));
                         ratios = map (\<lambda>(k, v). fl64 (frac / fl64 (v + fl64 (1 / 1000)))) cls_dist
                     in
                     on_success (sample_classes tape 0 (zip (map snd cls_infos) ratios))
                       (\<lambda>sampled_infos.
                          if \<not> has_logger ds then Inl AttributeError
                          else
                            on_success
                              (group_infos cls_names sampled_infos
                                 (map (\<lambda>nm. (nm, [])) (dict_keys cls_names)))
                              (\<lambda>cls_infos_new.
                                 if length sampled_infos = 0 then Inl ZeroDivisionError
                                 else Inr sampled_infos)))))))"

subsection \<open>Ground-truth database builder\<close>

record db_info =
  db_name :: string
  db_path :: string
  db_image_idx :: string
  db_gt_idx :: nat
  db_box3d_lidar :: box3d
  db_num_points_in_gt :: nat
  db_difficulty :: int
  db_bbox :: bbox2d
  db_score :: real

text \<open>
  What the builder leaves behind: the blob files in the order they are written (full
  path and rows), and the dictionary \<open>all_db_infos\<close>.
\<close>

record db_state =
  blobs :: "(string \<times> point list) list"
  all_db_infos :: "(string \<times> db_info list) list"

text \<open>\<open>'%d' % i\<close> for a natural number.\<close>

fun str_nat :: "nat \<Rightarrow> string" where
  "str_nat n =
     (if n < 10 then [''0123456789'' ! n]
      else str_nat (n div 10) @ [''0123456789'' ! (n mod 10)])"

declare str_nat.simps [simp del]

text \<open>\<open>points[point_indices[i] > 0]\<close> followed by \<open>gt_points[:, :3] -= gt_boxes[i, :3]\<close>.\<close>

definition recenter :: "vec3 \<Rightarrow> point \<Rightarrow> point" where
  "recenter c p =
     (case c of (cx, cy, cz) \<Rightarrow> case p of (x, y, z, i) \<Rightarrow> (x - cx, y - cy, z - cz, i))"

definition crop_points :: "'k box_ops \<Rightarrow> point list \<Rightarrow> box3d \<Rightarrow> point list" where
  "crop_points ops points b =
     map (recenter (center b)) (filter (\<lambda>p. points_in_boxes_cpu ops (xyz p) b > 0) points)"

text \<open>\<open>if k in d: d[k].append(v) else: d[k] = [v]\<close>\<close>

fun dict_add :: "string \<Rightarrow> 'v \<Rightarrow> (string \<times> 'v list) list \<Rightarrow> (string \<times> 'v list) list" where
  "dict_add k v [] = [(k, [v])]"
| "dict_add k v ((k', vs) # d) =
     (if k' = k then (k', vs @ [v]) # d else (k', vs) # dict_add k v d)"

definition database_dir :: "string \<Rightarrow> string" where
  "database_dir split_name =
     (if split_name = ''train'' then ''gt_database'' else ''gt_database_'' @ split_name)"

definition blob_name :: "string \<Rightarrow> string \<Rightarrow> nat \<Rightarrow> string" where
  "blob_name sample_idx nm i = sample_idx @ ''_'' @ nm @ ''_'' @ str_nat i @ ''.bin''"

text \<open>The path of the blob of object \<open>i\<close>, and its entry \<open>db_info\<close> in the index.\<close>

definition blob_path :: "dataset \<Rightarrow> string \<Rightarrow> string \<Rightarrow> annotations \<Rightarrow> nat \<Rightarrow> string" where
  "blob_path ds split_name sample_idx a i =
     path_join (path_join (root_path ds) (database_dir split_name))
       (blob_name sample_idx (name a ! i) i)"

definition make_entry :: "string \<Rightarrow> string \<Rightarrow> annotations \<Rightarrow> nat \<Rightarrow> point list \<Rightarrow> db_info" where
  "make_entry split_name sample_idx a i gt_points =
     \<lparr> db_name = name a ! i,
       db_path = path_join (database_dir split_name) (blob_name sample_idx (name a ! i) i),
       db_image_idx = sample_idx, db_gt_idx = i,
       db_box3d_lidar = gt_boxes_lidar a ! i,
       db_num_points_in_gt = length gt_points,
       db_difficulty = difficulty a ! i,
       db_bbox = bbox a ! i, db_score = score a ! i \<rparr>"

text \<open>The loop \<open>for i in range(num_obj)\<close> of one frame. The blob is written before the
  class filter is looked at.\<close>

fun gt_objects :: "'k box_ops \<Rightarrow> dataset \<Rightarrow> string \<Rightarrow> string list option \<Rightarrow> string \<Rightarrow> point list
    \<Rightarrow> annotations \<Rightarrow> nat list \<Rightarrow> db_state \<Rightarrow> error + db_state" where
  "gt_objects ops ds split_name used_classes sample_idx points a [] st = Inr st"
| "gt_objects ops ds split_name used_classes sample_idx points a (i # rest) st =
     (if i < length (name a) \<and> i < length (gt_boxes_lidar a) then
        (let filepath = blob_path ds split_name sample_idx a i;
             gt_points = crop_points ops points (gt_boxes_lidar a ! i);
             st1 = st \<lparr> blobs := blobs st @ [(filepath, gt_points)] \<rparr>
         in
         if used_classes = None \<or> name a ! i \<in> set (the used_classes) then
           (if i < length (difficulty a) \<and> i < length (bbox a) \<and> i < length (score a) then
              (let entry = make_entry split_name sample_idx a i gt_points
               in gt_objects ops ds split_name used_classes sample_idx points a rest
                    (st1 \<lparr> all_db_infos := dict_add (name a ! i) entry (all_db_infos st1) \<rparr>))
            else Inl IndexError)
         else gt_objects ops ds split_name used_classes sample_idx points a rest st1)
      else Inl IndexError)"

text \<open>The loop \<open>for k in range(len(infos))\<close>.\<close>

fun gt_frames :: "'k box_ops \<Rightarrow> dataset \<Rightarrow> files \<Rightarrow> string \<Rightarrow> string list option \<Rightarrow> info list
    \<Rightarrow> db_state \<Rightarrow> error + db_state" where
  "gt_frames ops ds fs split_name used_classes [] st = Inr st"
| "gt_frames ops ds fs split_name used_classes (frame # infos) st =
     (let sample_idx = pc_lidar_idx frame in
      on_success (get_lidar ds fs sample_idx) (\<lambda>points.
        (case annos frame of
           None \<Rightarrow> Inl (KeyError ''annos'')
         | Some a \<Rightarrow>
             (let num_obj = length (gt_boxes_lidar a) in
              on_success
                (gt_objects ops ds split_name used_classes sample_idx points a [0..<num_obj] st)
                (\<lambda>st'. gt_frames ops ds fs split_name used_classes infos st')))))"

text \<open>
  \<open>create_groundtruth_database\<close>, as called from the script entry point of the module
  (where \<open>Path\<close> is imported). \<open>infos\<close> is the list unpickled from \<open>info_path\<close>; the
  returned dictionary is the one pickled to the index file.
\<close>

definition create_groundtruth_database :: "'k box_ops \<Rightarrow> dataset \<Rightarrow> files \<Rightarrow> info list
    \<Rightarrow> string list option \<Rightarrow> string \<Rightarrow> error + db_state" where
  "create_groundtruth_database ops ds fs infos used_classes split_name =
     gt_frames ops ds fs split_name used_classes infos \<lparr> blobs = [], all_db_infos = [] \<rparr>"

subsection \<open>Prediction serializer\<close>

text \<open>
  \<open>'%.4f' % x\<close> for a finite float \<open>x\<close>, read as the real it denotes: the sign, the
  integer part and four decimals of \<open>|x|\<close>, correctly rounded (ties to even). A negative
  value that rounds to zero keeps its sign, as in C.
\<close>

definition pad4 :: "nat \<Rightarrow> string" where
  "pad4 n = replicate (4 - length (str_nat n)) (CHR ''0'') @ str_nat n"

definition fmt4 :: "real \<Rightarrow> string" where
  "fmt4 x =
     (let n = nat (round_half_even (\<bar>x\<bar> * 10000)) in
      (if x < 0 then ''-'' else []) @ str_nat (n div 10000) @ ''.'' @ pad4 (n mod 10000))"

text \<open>The dictionary built for one frame by \<open>generate_single_sample_dict\<close>.\<close>

record pred_dict =
  pd_name :: "string list"
  pd_truncated :: "real list"
  pd_occluded :: "real list"
  pd_alpha :: "real list"
  pd_bbox :: "bbox2d list"
  pd_dimensions :: "vec3 list"
  pd_location :: "vec3 list"
  pd_rotation_y :: "real list"
  pd_score :: "real list"
  pd_boxes_lidar :: "box3d list"
  pd_frame_id :: "string option"

text \<open>
  The \<open>print\<close> of one detection: the format string with its fourteen arguments, in the
  order of the tuple. \<open>dims\<close> rows are \<open>(l, h, w)\<close>; the arguments are
  \<open>dims[idx][1], dims[idx][2], dims[idx][0]\<close>.
\<close>

definition format_detection ::
  "string \<Rightarrow> real \<Rightarrow> bbox2d \<Rightarrow> vec3 \<Rightarrow> vec3 \<Rightarrow> real \<Rightarrow> real \<Rightarrow> string" where
  "format_detection nm al bb dims lc rot sc =
     (case bb of (b0, b1, b2, b3) \<Rightarrow>
      case dims of (d0, d1, d2) \<Rightarrow>
      case lc of (l0, l1, l2) \<Rightarrow>
        nm @ '' -1 -1 '' @ fmt4 al @ '' '' @ fmt4 b0 @ '' '' @ fmt4 b1 @ '' '' @ fmt4 b2
          @ '' '' @ fmt4 b3 @ '' '' @ fmt4 d1 @ '' '' @ fmt4 d2 @ '' '' @ fmt4 d0
          @ '' '' @ fmt4 l0 @ '' '' @ fmt4 l1 @ '' '' @ fmt4 l2 @ '' '' @ fmt4 rot
          @ '' '' @ fmt4 sc)"

definition detection_line :: "pred_dict \<Rightarrow> nat \<Rightarrow> error + string" where
  "detection_line d idx =
     (if idx < length (pd_name d) \<and> idx < length (pd_alpha d) \<and> idx < length (pd_bbox d)
         \<and> idx < length (pd_dimensions d) \<and> idx < length (pd_location d)
         \<and> idx < length (pd_rotation_y d) \<and> idx < length (pd_score d)
      then Inr (format_detection (pd_name d ! idx) (pd_alpha d ! idx) (pd_bbox d ! idx)
                  (pd_dimensions d ! idx) (pd_location d ! idx) (pd_rotation_y d ! idx)
                  (pd_score d ! idx))
      else Inl IndexError)"

text \<open>The lines printed for one frame, \<open>for idx in range(len(bbox))\<close>; every line is
  followed by a newline in the file.\<close>

definition detection_lines :: "pred_dict \<Rightarrow> error + string list" where
  "detection_lines d = collect (detection_line d) [0..<length (pd_bbox d)]"

text \<open>
  One round of the loop over \<open>pred_dicts\<close>. The nested function
  \<open>generate_single_sample_dict\<close>, which fills the arrays from the network output with the
  collaborators of \<open>box_utils\<close>, is the parameter \<open>single\<close>. The result is the annotation
  of the frame and, when an output path is given, the file written for it.
\<close>

definition prediction_step :: "(nat \<Rightarrow> 'p \<Rightarrow> pred_dict) \<Rightarrow> string list \<Rightarrow> string option
    \<Rightarrow> nat \<times> 'p \<Rightarrow> error + pred_dict \<times> (string \<times> string list) option" where
  "prediction_step single frame_ids output_path ib =
     (case ib of (i, box_dict) \<Rightarrow>
        if i < length frame_ids then
          (let frame_id = frame_ids ! i;
               single_pred_dict = (single i box_dict) \<lparr> pd_frame_id := Some frame_id \<rparr>
           in
           case output_path of
             None \<Rightarrow> Inr (single_pred_dict, None)
           | Some out \<Rightarrow>
               on_success (detection_lines single_pred_dict)
                 (\<lambda>ls. Inr (single_pred_dict, Some (path_join out (frame_id @ ''.txt''), ls))))
        else Inl IndexError)"

definition generate_prediction_dicts :: "(nat \<Rightarrow> 'p \<Rightarrow> pred_dict) \<Rightarrow> string list \<Rightarrow> 'p list
    \<Rightarrow> string option \<Rightarrow> error + (pred_dict \<times> (string \<times> string list) option) list" where
  "generate_prediction_dicts single frame_ids pred_dicts output_path =
     collect (prediction_step single frame_ids output_path) (enumerate 0 pred_dicts)"

text \<open>\<open>line.split(' ')\<close>: the fields of a line between single spaces.\<close>

fun split_spaces :: "string \<Rightarrow> string list" where
  "split_spaces [] = [[]]"
| "split_spaces (c # cs) =
     (if c = CHR '' '' then [] # split_spaces cs
      else (case split_spaces cs of
              [] \<Rightarrow> [[c]]
            | w # ws \<Rightarrow> (c # w) # ws))"

subsection \<open>Evaluation\<close>

text \<open>
  \<open>evaluation\<close>, with \<open>kitti_eval.get_official_eval_result\<close> as a parameter. The result
  is the report (\<open>None\<close> when there is none) and the metric dictionary.
\<close>

definition evaluation ::
  "(annotations list \<Rightarrow> 'd list \<Rightarrow> string list \<Rightarrow> error + string \<times> (string \<times> real) list)
    \<Rightarrow> dataset \<Rightarrow> 'd list \<Rightarrow> string list \<Rightarrow> error + string option \<times> (string \<times> real) list" where
  "evaluation kitti_eval ds det_annos cls_names =
     (case coda_infos ds of
        [] \<Rightarrow> Inl IndexError
      | first_info # others \<Rightarrow>
          if annos first_info = None then Inr (None, [])
          else
            on_success
              (collect (\<lambda>frame. case annos frame of
                                   None \<Rightarrow> Inl (KeyError ''annos'')
                                 | Some a \<Rightarrow> Inr a) (coda_infos ds))
              (\<lambda>eval_gt_annos.
                 on_success (kitti_eval eval_gt_annos det_annos cls_names)
                   (\<lambda>res. Inr (Some (fst res), snd res))))"

subsection \<open>Notions of the specification\<close>

text \<open>
  The class sets, shares and ratios of the balanced resampler in the words of the
  specification (4.5): the records that contain at least one object of the class, the share
  of the class in the memberships counted with multiplicity, and
  \<open>ratio = (1 / numClasses) / (classShare + 1e-3)\<close>.
\<close>

definition spec_class_records :: "info list \<Rightarrow> string \<Rightarrow> info list" where
  "spec_class_records infos k =
     filter (\<lambda>frame. case annos frame of None \<Rightarrow> False | Some a \<Rightarrow> k \<in> set (name a)) infos"

definition spec_memberships :: "string list \<Rightarrow> info list \<Rightarrow> nat" where
  "spec_memberships cls_names infos =
     sum_list (map (\<lambda>k. length (spec_class_records infos k)) (dict_keys cls_names))"

definition spec_ratio :: "string list \<Rightarrow> info list \<Rightarrow> string \<Rightarrow> real" where
  "spec_ratio cls_names infos k =
     (1 / real (length cls_names))
       / (real (length (spec_class_records infos k)) / real (spec_memberships cls_names infos)
          + 1 / 1000)"

text \<open>
  The same ratio and the product \<open>|classRecords| * ratio\<close> as the code computes them in
  double precision, for \<open>n\<close> classes, a class set of \<open>m\<close> records and \<open>t\<close> memberships in
  all; and the number of records drawn for a class: that product, truncated.
\<close>

definition float_ratio :: "nat \<Rightarrow> nat \<Rightarrow> nat \<Rightarrow> real" where
  "float_ratio n m t =
     fl64 (fl64 (1 / fl64 (real n)) / fl64 (fl64 (real m / real t) + fl64 (1 / 1000)))"

definition float_product :: "nat \<Rightarrow> nat \<Rightarrow> nat \<Rightarrow> real" where
  "float_product n m t = fl64 (fl64 (real m) * float_ratio n m t)"

definition draw_count :: "string list \<Rightarrow> info list \<Rightarrow> string \<Rightarrow> nat" where
  "draw_count cls_names infos k =
     nat (py_int (float_product (length cls_names) (length (spec_class_records infos k))
                    (spec_memberships cls_names infos)))"

text \<open>
  The database index: the entries of all classes, and the list stored under one class
  name (empty when the name is not a key).
\<close>

definition index_entries :: "db_state \<Rightarrow> db_info list" where
  "index_entries st = concat (map snd (all_db_infos st))"

definition dict_get :: "(string \<times> 'v list) list \<Rightarrow> string \<Rightarrow> 'v list" where
  "dict_get d k = (case map_of d k of None \<Rightarrow> [] | Some vs \<Rightarrow> vs)"

text \<open>The content of the blob files when the builder is done: the last write to a path.\<close>

definition blob_store :: "db_state \<Rightarrow> string \<rightharpoonup> point list" where
  "blob_store st = map_of (rev (blobs st))"

text \<open>
  What the database builder needs of an info record: the lidar file of its frame, and an
  annotation set whose arrays reach every row of \<open>gt_boxes_lidar\<close>. The records made by the
  info builder have it. \<open>frame_points\<close> and \<open>frame_annos\<close> name the points and the
  annotations of such a record.
\<close>

definition frame_points :: "dataset \<Rightarrow> files \<Rightarrow> info \<Rightarrow> point list" where
  "frame_points ds fs frame =
     (case get_lidar ds fs (pc_lidar_idx frame) of Inl e \<Rightarrow> [] | Inr pts \<Rightarrow> pts)"

definition frame_annos :: "info \<Rightarrow> annotations" where
  "frame_annos frame = the (annos frame)"

definition db_ready :: "dataset \<Rightarrow> files \<Rightarrow> info \<Rightarrow> bool" where
  "db_ready ds fs frame =
     ((case get_lidar ds fs (pc_lidar_idx frame) of Inl e \<Rightarrow> False | Inr pts \<Rightarrow> True)
      \<and> (case annos frame of
            None \<Rightarrow> False
          | Some a \<Rightarrow>
              length (gt_boxes_lidar a) \<le> length (name a)
              \<and> length (gt_boxes_lidar a) \<le> length (difficulty a)
              \<and> length (gt_boxes_lidar a) \<le> length (bbox a)
              \<and> length (gt_boxes_lidar a) \<le> length (score a)))"

text \<open>The blob and the index entry that the builder makes for object \<open>i\<close> of a record.\<close>

definition object_blob :: "'k box_ops \<Rightarrow> dataset \<Rightarrow> files \<Rightarrow> string \<Rightarrow> info \<Rightarrow> nat
    \<Rightarrow> string \<times> point list" where
  "object_blob ops ds fs split_name frame i =
     (blob_path ds split_name (pc_lidar_idx frame) (frame_annos frame) i,
      crop_points ops (frame_points ds fs frame) (gt_boxes_lidar (frame_annos frame) ! i))"

definition object_entry :: "'k box_ops \<Rightarrow> dataset \<Rightarrow> files \<Rightarrow> string \<Rightarrow> info \<Rightarrow> nat \<Rightarrow> db_info" where
  "object_entry ops ds fs split_name frame i =
     make_entry split_name (pc_lidar_idx frame) (frame_annos frame) i
       (crop_points ops (frame_points ds fs frame) (gt_boxes_lidar (frame_annos frame) ! i))"

text \<open>A number printed with four decimals: an optional sign, at least one digit, a
  point and exactly four digits.\<close>

definition is_digit :: "char \<Rightarrow> bool" where
  "is_digit c = (c \<in> set ''0123456789'')"

definition four_decimals :: "string \<Rightarrow> bool" where
  "four_decimals s =
     (let body = (case s of [] \<Rightarrow> [] | c # cs \<Rightarrow> if c = CHR ''-'' then cs else s);
          whole = take (length body - 5) body
      in 6 \<le> length body
         \<and> list_all is_digit whole
         \<and> body ! (length body - 5) = CHR ''.''
         \<and> list_all is_digit (drop (length body - 4) body))"

text \<open>
  The fields of the line of detection \<open>idx\<close> in the words of the specification (6):
  \<open><name> -1 -1 <alpha> <bbox_x1> <bbox_y1> <bbox_x2> <bbox_y2> <height> <width> <length>
  <loc_x> <loc_y> <loc_z> <yaw> <score>\<close>, the rows of \<open>dimensions\<close> being
  \<open>(length, height, width)\<close>.
\<close>

definition detection_fields :: "pred_dict \<Rightarrow> nat \<Rightarrow> string list" where
  "detection_fields d idx =
     (case pd_bbox d ! idx of (x1, y1, x2, y2) \<Rightarrow>
      case pd_dimensions d ! idx of (l, h, w) \<Rightarrow>
      case pd_location d ! idx of (x, y, z) \<Rightarrow>
        [pd_name d ! idx, ''-1'', ''-1'', fmt4 (pd_alpha d ! idx),
         fmt4 x1, fmt4 y1, fmt4 x2, fmt4 y2, fmt4 h, fmt4 w, fmt4 l,
         fmt4 x, fmt4 y, fmt4 z, fmt4 (pd_rotation_y d ! idx), fmt4 (pd_score d ! idx)])"

subsection \<open>Example data\<close>

text \<open>
  A calibration whose transforms are the identity, with the pixel of a rect point
  \<open>(x, y, z)\<close> at \<open>(x, y)\<close> and its depth \<open>z\<close>; an axis-aligned box test standing for the hull
  test and the oriented-box test.
\<close>

definition demo_calib :: calibration where
  "demo_calib =
     \<lparr> P2 = [[1, 0, 0, 0], [0, 1, 0, 0], [0, 0, 1, 0]],
       R0 = [[1, 0, 0], [0, 1, 0], [0, 0, 1]],
       V2C = [[1, 0, 0, 0], [0, 1, 0, 0], [0, 0, 1, 0]],
       rect_to_img = (\<lambda>p. case p of (x, y, z) \<Rightarrow> ((x, y), z)),
       lidar_to_rect = (\<lambda>p. p),
       rect_to_lidar = (\<lambda>p. p) \<rparr>"

definition in_box :: "vec3 \<Rightarrow> box3d \<Rightarrow> bool" where
  "in_box p b =
     (case p of (x, y, z) \<Rightarrow> case center b of (cx, cy, cz) \<Rightarrow>
        \<bar>x - cx\<bar> \<le> box_l b / 2 \<and> \<bar>y - cy\<bar> \<le> box_w b / 2 \<and> \<bar>z - cz\<bar> \<le> box_h b / 2)"

definition demo_ops :: "box3d box_ops" where
  "demo_ops =
     \<lparr> boxes_to_corners_3d = (\<lambda>b. b),
       in_hull = in_box,
       points_in_boxes_cpu = (\<lambda>p b. if in_box p b then 1 else 0) \<rparr>"

definition demo_car :: object3d where
  "demo_car =
     \<lparr> cls_type = ''Car'', truncation = 0, occlusion = 0, obj_alpha = 0,
       box2d = (1, 2, 3, 4), obj_h = 2, obj_w = 2, obj_l = 4, loc = (10, 5, 1),
       ry = 0, obj_score = 1, level = 0 \<rparr>"

definition demo_dontcare :: object3d where
  "demo_dontcare =
     \<lparr> cls_type = ''DontCare'', truncation = - 1, occlusion = - 1, obj_alpha = - 10,
       box2d = (5, 6, 7, 8), obj_h = - 1, obj_w = - 1, obj_l = - 1,
       loc = (- 1000, - 1000, - 1000), ry = - 10, obj_score = 1, level = - 1 \<rparr>"

definition demo_pedestrian :: object3d where
  "demo_pedestrian =
     \<lparr> cls_type = ''Pedestrian'', truncation = 0, occlusion = 1, obj_alpha = 0,
       box2d = (2, 2, 4, 6), obj_h = 2, obj_w = 1, obj_l = 1, loc = (3, 4, 1),
       ry = 0, obj_score = 1, level = 1 \<rparr>"

definition demo_objs :: "object3d list" where
  "demo_objs = [demo_car, demo_dontcare, demo_pedestrian]"

definition demo_points :: "point list" where
  "demo_points = [(11, 5, 2, 1 / 2), (12, 5, 2, 1 / 4), (3, 4, 2, 0), (3, 4, - 2, 0)]"

definition demo_ds :: dataset where
  "demo_ds =
     \<lparr> root_path = ''data'', root_split_path = ''data/training'', ds_split = ''train'',
       use_sorted_imageset = False, lidar_idx_subdir_map = Map.empty,
       sample_id_list = Some [''7''], class_names = Some [''Car'', ''Pedestrian''],
       has_logger = True, coda_infos = [] \<rparr>"

text \<open>Frame \<open>7\<close> has all four files, frame \<open>8\<close> lacks its label file and frame \<open>9\<close> its
  calibration file; the label file of frame \<open>6\<close> has no object.\<close>

definition demo_fs :: files where
  "demo_fs =
     \<lparr> lidar_files = [''data/training/velodyne/7.bin'' \<mapsto> demo_points,
                       ''data/training/velodyne/6.bin'' \<mapsto> demo_points],
       image_files = [''data/training/image_0/7.jpg'' \<mapsto> (10, 12),
                       ''data/training/image_0/6.jpg'' \<mapsto> (10, 12),
                       ''data/training/image_0/8.jpg'' \<mapsto> (10, 12),
                       ''data/training/image_0/9.jpg'' \<mapsto> (10, 12)],
       label_files = [''data/training/label_0/7.txt'' \<mapsto> demo_objs,
                       ''data/training/label_0/6.txt'' \<mapsto> [],
                       ''data/training/label_0/9.txt'' \<mapsto> demo_objs],
       calib_files = [''data/training/calib/7.txt'' \<mapsto> demo_calib,
                       ''data/training/calib/6.txt'' \<mapsto> demo_calib,
                       ''data/training/calib/8.txt'' \<mapsto> demo_calib] \<rparr>"

definition demo_car_box :: box3d where
  "demo_car_box = \<lparr> center = (10, 5, 2), box_l = 4, box_w = 2, box_h = 2, yaw = - (pi / 2) \<rparr>"

definition demo_pedestrian_box :: box3d where
  "demo_pedestrian_box = \<lparr> center = (3, 4, 2), box_l = 1, box_w = 1, box_h = 2, yaw = - (pi / 2) \<rparr>"

text \<open>An info record of frame \<open>7\<close> with the two objects given by \<open>names\<close>.\<close>

definition demo_annos :: "string list \<Rightarrow> annotations" where
  "demo_annos names =
     \<lparr> name = names, truncated = [0, 0], occluded = [0, 1], alpha = [0, 0],
       bbox = [(1, 2, 3, 4), (2, 2, 4, 6)], dimensions = [(4, 2, 2), (1, 2, 1)],
       location = [(10, 5, 1), (3, 4, 1)], rotation_y = [0, 0], score = [1, 1],
       difficulty = [0, 1], index = [0, 1],
       gt_boxes_lidar = [demo_car_box, demo_pedestrian_box],
       num_points_in_gt = Some [1, 1] \<rparr>"

definition demo_info :: "string \<Rightarrow> string list \<Rightarrow> info" where
  "demo_info idx names =
     \<lparr> pc_num_features = 4, pc_lidar_idx = idx, image_idx = idx, image_shape = (10, 12),
       calib = make_calib_info demo_calib, annos = Some (demo_annos names) \<rparr>"

text \<open>The record that the info builder makes of frame \<open>7\<close>.\<close>

definition demo_frame7 :: info where
  "demo_frame7 =
     \<lparr> pc_num_features = 4, pc_lidar_idx = ''7'', image_idx = ''7'', image_shape = (10, 12),
       calib = make_calib_info demo_calib,
       annos = Some
         \<lparr> name = [''Car'', ''DontCare'', ''Pedestrian''], truncated = [0, - 1, 0],
           occluded = [0, - 1, 1], alpha = [0, - 10, 0],
           bbox = [(1, 2, 3, 4), (5, 6, 7, 8), (2, 2, 4, 6)],
           dimensions = [(4, 2, 2), (- 1, - 1, - 1), (1, 2, 1)],
           location = [(10, 5, 1), (- 1000, - 1000, - 1000), (3, 4, 1)],
           rotation_y = [0, - 10, 0], score = [1, 1, 1], difficulty = [0, - 1, 1],
           index = [0, 2], gt_boxes_lidar = [demo_car_box, demo_pedestrian_box],
           num_points_in_gt = Some [1, 1, - 1] \<rparr> \<rparr>"

text \<open>A corpus in which \<open>Car\<close> occurs in three records and \<open>Pedestrian\<close> in one.\<close>

definition demo_corpus :: "info list" where
  "demo_corpus =
     [demo_info ''1'' [''Car'', ''Car''], demo_info ''2'' [''Car'', ''Tree''],
      demo_info ''3'' [''Car'', ''Car''], demo_info ''4'' [''Pedestrian'', ''Tree'']]"

definition demo_tape :: "nat \<Rightarrow> nat" where
  "demo_tape n = n"

text \<open>One detection.\<close>

definition demo_pred :: pred_dict where
  "demo_pred =
     \<lparr> pd_name = [''Car''], pd_truncated = [0], pd_occluded = [0], pd_alpha = [- (157 / 100)],
       pd_bbox = [(1, 2, 7 / 2, 17 / 4)], pd_dimensions = [(4, 3 / 2, 2)],
       pd_location = [(10, 5, 2)], pd_rotation_y = [1 / 32], pd_score = [24999 / 25000],
       pd_boxes_lidar = [demo_car_box], pd_frame_id = None \<rparr>"

section \<open>Verification\<close>

subsection \<open>Lists, indices and the counting loop\<close>

lemma nth_filter_upt:
  "map (\<lambda>i. xs ! i) (filter (\<lambda>i. P (xs ! i)) [0..<length xs]) = filter P xs"
proof (induction xs rule: rev_induct)
  case Nil
  show ?case by simp
next
  case (snoc x xs)
  have f: "filter (\<lambda>i. P ((xs @ [x]) ! i)) [0..<length xs]
         = filter (\<lambda>i. P (xs ! i)) [0..<length xs]"
    by (rule filter_cong) (auto simp: nth_append)
  have m: "map (\<lambda>i. (xs @ [x]) ! i) (filter (\<lambda>i. P (xs ! i)) [0..<length xs])
         = map (\<lambda>i. xs ! i) (filter (\<lambda>i. P (xs ! i)) [0..<length xs])"
    by (rule map_cong) (auto simp: nth_append)
  show ?case using snoc.IH by (simp add: f m)
qed

lemma length_non_ignored_index:
  "length (non_ignored_index objs) = length (filter (\<lambda>obj. cls_type obj \<noteq> ''DontCare'') objs)"
proof -
  have "length (non_ignored_index objs) = length (map (\<lambda>i. objs ! i) (non_ignored_index objs))"
    by simp
  also have "\<dots> = length (filter (\<lambda>obj. cls_type obj \<noteq> ''DontCare'') objs)"
    unfolding non_ignored_index_def
    by (rule arg_cong[where f = length, OF nth_filter_upt])
  finally show ?thesis .
qed

lemma fold_update_upt:
  "n \<le> length acc \<Longrightarrow>
   fold (\<lambda>k a. a[k := f k]) [0..<n] acc = map f [0..<n] @ drop n acc"
proof (induction n)
  case 0
  show ?case by simp
next
  case (Suc n)
  then have n: "n < length acc" by simp
  have "fold (\<lambda>k a. a[k := f k]) [0..<Suc n] acc = (map f [0..<n] @ drop n acc)[n := f n]"
    using Suc by simp
  also have "\<dots> = map f [0..<n] @ (drop n acc)[0 := f n]"
    by (simp add: list_update_append)
  also have "drop n acc = acc ! n # drop (Suc n) acc"
    using n by (simp add: Cons_nth_drop_Suc)
  finally show ?case by simp
qed

lemma count_inside_fold:
  "\<forall>k\<in>set ks. k < length corners \<and> k < length acc \<Longrightarrow>
   count_inside ops pts corners ks acc =
     Inr (fold (\<lambda>k a. a[k := to_int32 (int (length
            (filter (\<lambda>p. in_hull ops (xyz p) (corners ! k)) pts)))]) ks acc)"
proof (induction ks arbitrary: acc)
  case Nil
  then show ?case by simp
next
  case (Cons k ks)
  then show ?case by (simp add: Let_def length_filter_map comp_def)
qed

lemma count_inside_upt:
  assumes "n \<le> length boxes" "n \<le> m"
  shows "count_inside ops pts (map (boxes_to_corners_3d ops) boxes) [0..<n] (replicate m (- 1)) =
     Inr (map (\<lambda>k. to_int32 (int (length (filter
                  (\<lambda>p. in_hull ops (xyz p) (boxes_to_corners_3d ops (boxes ! k))) pts)))) [0..<n]
          @ replicate (m - n) (- 1))"
proof -
  let ?cs = "map (boxes_to_corners_3d ops) boxes"
  let ?f = "\<lambda>k. to_int32 (int (length (filter (\<lambda>p. in_hull ops (xyz p) (?cs ! k)) pts)))"
  have "count_inside ops pts ?cs [0..<n] (replicate m (- 1))
      = Inr (fold (\<lambda>k a. a[k := ?f k]) [0..<n] (replicate m (- 1)))"
    using assms by (intro count_inside_fold) auto
  also have "fold (\<lambda>k a. a[k := ?f k]) [0..<n] (replicate m (- 1))
      = map ?f [0..<n] @ drop n (replicate m (- 1))"
    using assms by (intro fold_update_upt) simp
  also have "map ?f [0..<n] = map (\<lambda>k. to_int32 (int (length (filter
                  (\<lambda>p. in_hull ops (xyz p) (boxes_to_corners_3d ops (boxes ! k))) pts)))) [0..<n]"
    using assms by (intro map_cong) auto
  finally show ?thesis by simp
qed

lemma to_int32_id: "- 2147483648 \<le> n \<Longrightarrow> n < 2147483648 \<Longrightarrow> to_int32 n = n"
  by (simp add: to_int32_def)

lemma zip3_map:
  "zip (map f xs) (zip (map g xs) (map h xs)) = map (\<lambda>x. (f x, g x, h x)) xs"
  by (induction xs) simp_all

subsection \<open>The annotation set of one frame\<close>

lemma raw_annotations_fields:
  "name (raw_annotations objs) = map cls_type objs"
  "truncated (raw_annotations objs) = map truncation objs"
  "occluded (raw_annotations objs) = map occlusion objs"
  "alpha (raw_annotations objs) = map obj_alpha objs"
  "bbox (raw_annotations objs) = map box2d objs"
  "dimensions (raw_annotations objs) = map (\<lambda>obj. (obj_l obj, obj_h obj, obj_w obj)) objs"
  "location (raw_annotations objs) = map loc objs"
  "rotation_y (raw_annotations objs) = map ry objs"
  "score (raw_annotations objs) = map obj_score objs"
  "difficulty (raw_annotations objs) = map level objs"
  by (simp_all add: raw_annotations_def)

lemma check_keys_raw:
  "check_keys None (annos_keys (raw_annotations objs
     \<lparr> index := ix, gt_boxes_lidar := bs \<rparr>)) = Inr ()"
  "check_keys None (annos_keys (raw_annotations objs
     \<lparr> index := ix, gt_boxes_lidar := bs, num_points_in_gt := n \<rparr>)) = Inr ()"
  by (simp_all add: annos_keys_def raw_annotations_def)

lemma raw_annotations_no_counts:
  "raw_annotations objs \<lparr> index := ix, gt_boxes_lidar := bs, num_points_in_gt := None \<rparr>
   = raw_annotations objs \<lparr> index := ix, gt_boxes_lidar := bs \<rparr>"
  by (simp add: raw_annotations_def)

lemma length_make_gt_boxes_lidar:
  "length (make_gt_boxes_lidar c a idx) = length idx"
  by (simp add: make_gt_boxes_lidar_def Let_def)

text \<open>The rows of \<open>gt_boxes_lidar\<close> are the lidar boxes of the objects that are not
  \<open>DontCare\<close>, in the order of the label file.\<close>

lemma make_gt_boxes_lidar_filter:
  "make_gt_boxes_lidar c (raw_annotations objs) (non_ignored_index objs) =
     map (\<lambda>obj. lidar_box c (loc obj) (obj_l obj, obj_h obj, obj_w obj) (ry obj))
       (filter (\<lambda>obj. cls_type obj \<noteq> ''DontCare'') objs)"
proof -
  let ?idx = "non_ignored_index objs"
  let ?a = "raw_annotations objs"
  have in_range: "\<And>i. i \<in> set ?idx \<Longrightarrow> i < length objs"
    by (simp add: non_ignored_index_def)
  have l: "map (\<lambda>i. location ?a ! i) ?idx = map (\<lambda>i. loc (objs ! i)) ?idx"
    by (rule map_cong) (auto simp: raw_annotations_fields dest: in_range)
  have d: "map (\<lambda>i. dimensions ?a ! i) ?idx
         = map (\<lambda>i. (obj_l (objs ! i), obj_h (objs ! i), obj_w (objs ! i))) ?idx"
    by (rule map_cong) (auto simp: raw_annotations_fields dest: in_range)
  have r: "map (\<lambda>i. rotation_y ?a ! i) ?idx = map (\<lambda>i. ry (objs ! i)) ?idx"
    by (rule map_cong) (auto simp: raw_annotations_fields dest: in_range)
  have "make_gt_boxes_lidar c ?a ?idx =
          map (\<lambda>i. lidar_box c (loc (objs ! i))
                 (obj_l (objs ! i), obj_h (objs ! i), obj_w (objs ! i)) (ry (objs ! i))) ?idx"
    by (simp add: make_gt_boxes_lidar_def Let_def l d r zip3_map)
  also have "\<dots> = map (\<lambda>obj. lidar_box c (loc obj) (obj_l obj, obj_h obj, obj_w obj) (ry obj))
                     (map (\<lambda>i. objs ! i) ?idx)"
    by (simp add: comp_def)
  also have "map (\<lambda>i. objs ! i) ?idx = filter (\<lambda>obj. cls_type obj \<noteq> ''DontCare'') objs"
    unfolding non_ignored_index_def by (rule nth_filter_upt)
  finally show ?thesis .
qed

text \<open>The record built for a frame whose files are all present.\<close>

lemma process_single_scene_labelled:
  assumes shp: "get_image_shape ds fs sample_idx = Inr shp"
    and c: "get_calib ds fs sample_idx = Inr c"
    and objs: "get_label ds fs sample_idx = Inr objs"
    and pts: "count_inside_pts \<Longrightarrow> get_lidar ds fs sample_idx = Inr pts"
  shows "process_single_scene ops ds fs True count_inside_pts sample_idx =
     Inr \<lparr> pc_num_features = 4, pc_lidar_idx = sample_idx, image_idx = sample_idx,
           image_shape = shp, calib = make_calib_info c,
           annos = Some (raw_annotations objs
             \<lparr> index := map (\<lambda>i. to_int32 (int i)) (non_ignored_index objs),
               gt_boxes_lidar :=
                 make_gt_boxes_lidar c (raw_annotations objs) (non_ignored_index objs),
               num_points_in_gt :=
                 (if count_inside_pts then
                    Some (map (\<lambda>k. to_int32 (int (length (filter
                            (\<lambda>p. in_hull ops (xyz p) (boxes_to_corners_3d ops
                               (make_gt_boxes_lidar c (raw_annotations objs)
                                  (non_ignored_index objs) ! k)))
                            (mask_select pts
                               (get_fov_flag (map (\<lambda>p. lidar_to_rect c (xyz p)) pts) shp c 0))))))
                            [0..<length (non_ignored_index objs)]
                          @ replicate (length objs - length (non_ignored_index objs)) (- 1))
                  else None) \<rparr>) \<rparr>"
proof (cases count_inside_pts)
  case False
  then show ?thesis
    by (simp add: process_single_scene_def on_success_def shp c objs Let_def check_keys_raw
        raw_annotations_no_counts)
next
  case True
  have le: "length (non_ignored_index objs) \<le> length objs"
    by (simp add: length_non_ignored_index)
  have n: "length (name (raw_annotations objs)) = length objs"
    by (simp add: raw_annotations_def)
  show ?thesis
    using True pts
    by (simp add: process_single_scene_def on_success_def shp c objs Let_def check_keys_raw
        length_non_ignored_index[symmetric] n count_inside_upt length_make_gt_boxes_lidar le)
qed

subsection \<open>The example frames\<close>

lemma demo_shape: "get_image_shape demo_ds demo_fs ''7'' = Inr (10, 12)"
  by (simp add: get_image_shape_def frame_root_def demo_ds_def demo_fs_def path_join_def)

lemma demo_get_calib: "get_calib demo_ds demo_fs ''7'' = Inr demo_calib"
  by (simp add: get_calib_def frame_root_def demo_ds_def demo_fs_def path_join_def)

lemma demo_label: "get_label demo_ds demo_fs ''7'' = Inr demo_objs"
  by (simp add: get_label_def frame_root_def demo_ds_def demo_fs_def path_join_def)

lemma demo_lidar: "get_lidar demo_ds demo_fs ''7'' = Inr demo_points"
  by (simp add: get_lidar_def frame_root_def demo_ds_def demo_fs_def path_join_def)

lemma demo_counts:
  "length demo_objs = 3"
  "length (filter (\<lambda>obj. cls_type obj \<noteq> ''DontCare'') demo_objs) = 2"
  by (simp_all add: demo_objs_def demo_car_def demo_dontcare_def demo_pedestrian_def)

subsection \<open>Claims about the info builder\<close>

text \<open>
  C1. For a frame with all its files present that the info builder processes with labels,
  the builder returns a record whose annotation arrays \<open>name\<close>, \<open>truncated\<close>, \<open>occluded\<close>,
  \<open>alpha\<close>, \<open>bbox\<close>, \<open>dimensions\<close>, \<open>location\<close>, \<open>rotation_y\<close>, \<open>score\<close>, \<open>difficulty\<close> and
  (when points are counted) \<open>num_points_in_gt\<close> all have the length of the list of labelled
  objects, while \<open>index\<close> and \<open>gt_boxes_lidar\<close> have as many entries as there are objects
  whose class is not \<open>DontCare\<close>; the equal-length check of the construction succeeds.
\<close>

theorem annotation_arrays_equal_length:
  assumes "get_image_shape ds fs sample_idx = Inr shp"
    and "get_calib ds fs sample_idx = Inr c"
    and "get_label ds fs sample_idx = Inr objs"
    and "count_inside_pts \<longrightarrow> get_lidar ds fs sample_idx = Inr pts"
  shows "\<exists>frame a.
     process_single_scene ops ds fs True count_inside_pts sample_idx = Inr frame
     \<and> annos frame = Some a
     \<and> length (name a) = length objs
     \<and> length (truncated a) = length objs
     \<and> length (occluded a) = length objs
     \<and> length (alpha a) = length objs
     \<and> length (bbox a) = length objs
     \<and> length (dimensions a) = length objs
     \<and> length (location a) = length objs
     \<and> length (rotation_y a) = length objs
     \<and> length (score a) = length objs
     \<and> length (difficulty a) = length objs
     \<and> (count_inside_pts \<longrightarrow>
          (\<exists>counts. num_points_in_gt a = Some counts \<and> length counts = length objs))
     \<and> length (index a) = length (filter (\<lambda>obj. cls_type obj \<noteq> ''DontCare'') objs)
     \<and> length (gt_boxes_lidar a) = length (filter (\<lambda>obj. cls_type obj \<noteq> ''DontCare'') objs)
     \<and> check_keys None (annos_keys a) = Inr ()"
proof -
  have le: "length (non_ignored_index objs) \<le> length objs"
    by (simp add: length_non_ignored_index)
  show ?thesis
    using assms(4) le
    by (simp add: process_single_scene_labelled[OF assms(1,2,3), of count_inside_pts pts]
        raw_annotations_fields length_make_gt_boxes_lidar length_non_ignored_index
        check_keys_raw)
qed

theorem annotation_arrays_equal_length_witness:
  "\<exists>frame a.
     process_single_scene demo_ops demo_ds demo_fs True True ''7'' = Inr frame
     \<and> annos frame = Some a
     \<and> length (name a) = 3 \<and> length (truncated a) = 3 \<and> length (occluded a) = 3
     \<and> length (alpha a) = 3 \<and> length (bbox a) = 3 \<and> length (dimensions a) = 3
     \<and> length (location a) = 3 \<and> length (rotation_y a) = 3 \<and> length (score a) = 3
     \<and> length (difficulty a) = 3
     \<and> (\<exists>counts. num_points_in_gt a = Some counts \<and> length counts = 3)
     \<and> length (index a) = 2 \<and> length (gt_boxes_lidar a) = 2
     \<and> check_keys None (annos_keys a) = Inr ()"
proof -
  have lidar: "True \<longrightarrow> get_lidar demo_ds demo_fs ''7'' = Inr demo_points"
    by (simp add: demo_lidar)
  show ?thesis
    using annotation_arrays_equal_length
      [OF demo_shape demo_get_calib demo_label lidar, of demo_ops]
    unfolding demo_counts by simp
qed

lemma length_mask_select_le: "length (mask_select xs flags) \<le> length xs"
proof -
  have "length (filter snd (zip xs flags)) \<le> length (zip xs flags)"
    by (rule length_filter_le)
  then show ?thesis
    unfolding mask_select_def by simp
qed

lemma mask_select_map: "mask_select xs (map P xs) = filter P xs"
  unfolding mask_select_def by (induction xs) simp_all

lemma demo_pts_fov:
  "mask_select demo_points
     (get_fov_flag (map (\<lambda>p. lidar_to_rect demo_calib (xyz p)) demo_points) (10, 12) demo_calib 0)
   = [(11, 5, 2, 1 / 2), (3, 4, 2, 0)]"
  by (simp add: mask_select_def get_fov_flag_def fov_point_def demo_points_def demo_calib_def
      xyz_def)

lemma demo_boxes:
  "map (\<lambda>obj. lidar_box demo_calib (loc obj) (obj_l obj, obj_h obj, obj_w obj) (ry obj))
     (filter (\<lambda>obj. cls_type obj \<noteq> ''DontCare'') demo_objs)
   = [demo_car_box, demo_pedestrian_box]"
  by (simp add: demo_objs_def demo_car_def demo_dontcare_def demo_pedestrian_def lidar_box_def
      demo_calib_def demo_car_box_def demo_pedestrian_box_def)

lemma demo_hull_counts:
  "length (filter (\<lambda>p. in_hull demo_ops (xyz p) (boxes_to_corners_3d demo_ops demo_car_box))
     [(11, 5, 2, 1 / 2), (3, 4, 2, 0)]) = 1"
  "length (filter (\<lambda>p. in_hull demo_ops (xyz p) (boxes_to_corners_3d demo_ops demo_pedestrian_box))
     [(11, 5, 2, 1 / 2), (3, 4, 2, 0)]) = 1"
  by (simp_all add: demo_ops_def in_box_def xyz_def demo_car_box_def demo_pedestrian_box_def)

text \<open>
  C2. With point counting enabled, for a frame with all its files present and fewer than
  \<open>2^31\<close> points, the builder stores an array \<open>num_points_in_gt\<close> with one entry per
  labelled object. The points are taken to the rect frame and filtered by the FOV mask of
  margin 0; for every \<open>k\<close> below the number of objects that are not \<open>DontCare\<close>, entry \<open>k\<close>
  is the number of filtered points in the hull of the \<open>k\<close>-th lidar box, which is the box
  of the \<open>k\<close>-th object that is not \<open>DontCare\<close>; every later entry is \<open>-1\<close>.
\<close>

theorem num_points_in_gt_counts:
  assumes "get_image_shape ds fs sample_idx = Inr shp"
    and "get_calib ds fs sample_idx = Inr c"
    and "get_label ds fs sample_idx = Inr objs"
    and "get_lidar ds fs sample_idx = Inr pts"
    and "length pts < 2147483648"
  shows "\<exists>frame a counts.
     process_single_scene ops ds fs True True sample_idx = Inr frame
     \<and> annos frame = Some a
     \<and> num_points_in_gt a = Some counts
     \<and> length counts = length objs
     \<and> gt_boxes_lidar a =
         map (\<lambda>obj. lidar_box c (loc obj) (obj_l obj, obj_h obj, obj_w obj) (ry obj))
           (filter (\<lambda>obj. cls_type obj \<noteq> ''DontCare'') objs)
     \<and> (\<forall>k. k < length (filter (\<lambda>obj. cls_type obj \<noteq> ''DontCare'') objs) \<longrightarrow>
          counts ! k =
            int (length (filter
              (\<lambda>p. in_hull ops (xyz p) (boxes_to_corners_3d ops (gt_boxes_lidar a ! k)))
              (mask_select pts
                 (get_fov_flag (map (\<lambda>p. lidar_to_rect c (xyz p)) pts) shp c 0)))))
     \<and> (\<forall>k. length (filter (\<lambda>obj. cls_type obj \<noteq> ''DontCare'') objs) \<le> k \<and> k < length objs \<longrightarrow>
          counts ! k = - 1)"
proof -
  let ?n = "length (non_ignored_index objs)"
  let ?boxes = "make_gt_boxes_lidar c (raw_annotations objs) (non_ignored_index objs)"
  let ?fov = "mask_select pts (get_fov_flag (map (\<lambda>p. lidar_to_rect c (xyz p)) pts) shp c 0)"
  let ?cnt = "\<lambda>k. length (filter
                (\<lambda>p. in_hull ops (xyz p) (boxes_to_corners_3d ops (?boxes ! k))) ?fov)"
  let ?counts = "map (\<lambda>k. to_int32 (int (?cnt k))) [0..<?n] @ replicate (length objs - ?n) (- 1)"
  have n: "?n = length (filter (\<lambda>obj. cls_type obj \<noteq> ''DontCare'') objs)"
    by (rule length_non_ignored_index)
  have le: "?n \<le> length objs"
    by (simp add: n)
  have small: "to_int32 (int (?cnt k)) = int (?cnt k)" for k
  proof -
    have "?cnt k \<le> length ?fov" by simp
    also have "\<dots> \<le> length pts" by (rule length_mask_select_le)
    finally have "int (?cnt k) < 2147483648" using assms(5) by simp
    then show ?thesis by (simp add: to_int32_id)
  qed
  have len: "length ?counts = length objs"
    using le by simp
  have low: "?counts ! k = int (?cnt k)" if "k < ?n" for k
    using that by (simp add: nth_append small)
  have high: "?counts ! k = - 1" if "?n \<le> k" "k < length objs" for k
    using that by (simp add: nth_append)
  have run: "process_single_scene ops ds fs True True sample_idx =
     Inr \<lparr> pc_num_features = 4, pc_lidar_idx = sample_idx, image_idx = sample_idx,
           image_shape = shp, calib = make_calib_info c,
           annos = Some (raw_annotations objs
             \<lparr> index := map (\<lambda>i. to_int32 (int i)) (non_ignored_index objs),
               gt_boxes_lidar := ?boxes, num_points_in_gt := Some ?counts \<rparr>) \<rparr>"
    using process_single_scene_labelled[OF assms(1,2,3), of True pts ops] assms(4) by simp
  show ?thesis
    unfolding run
    using len low high
    by (simp add: make_gt_boxes_lidar_filter[symmetric] n[symmetric] del: length_replicate)
qed

theorem num_points_in_gt_counts_witness:
  "\<exists>frame a counts.
     process_single_scene demo_ops demo_ds demo_fs True True ''7'' = Inr frame
     \<and> annos frame = Some a
     \<and> num_points_in_gt a = Some counts
     \<and> length counts = 3
     \<and> gt_boxes_lidar a = [demo_car_box, demo_pedestrian_box]
     \<and> counts ! 0 = 1 \<and> counts ! 1 = 1 \<and> counts ! 2 = - 1"
proof -
  have small: "length demo_points < 2147483648"
    by (simp add: demo_points_def)
  obtain frame a counts where
    run: "process_single_scene demo_ops demo_ds demo_fs True True ''7'' = Inr frame"
      "annos frame = Some a" "num_points_in_gt a = Some counts"
    and len: "length counts = 3"
    and boxes: "gt_boxes_lidar a = [demo_car_box, demo_pedestrian_box]"
    and low: "\<forall>k. k < 2 \<longrightarrow> counts ! k =
            int (length (filter
              (\<lambda>p. in_hull demo_ops (xyz p) (boxes_to_corners_3d demo_ops (gt_boxes_lidar a ! k)))
              [(11, 5, 2, 1 / 2), (3, 4, 2, 0)]))"
    and high: "\<forall>k. 2 \<le> k \<and> k < 3 \<longrightarrow> counts ! k = - 1"
    using num_points_in_gt_counts
      [OF demo_shape demo_get_calib demo_label demo_lidar small, of demo_ops]
    unfolding demo_counts demo_pts_fov demo_boxes by blast
  have b0: "gt_boxes_lidar a ! 0 = demo_car_box"
    and b1: "gt_boxes_lidar a ! 1 = demo_pedestrian_box"
    by (simp_all add: boxes)
  have "counts ! 0 = 1"
    using low[rule_format, of 0] unfolding b0 demo_hull_counts by simp
  moreover have "counts ! 1 = 1"
    using low[rule_format, of 1] unfolding b1 demo_hull_counts by simp
  moreover have "counts ! 2 = - 1"
    using high[rule_format, of 2] by simp
  ultimately show ?thesis
    using run len boxes by blast
qed

text \<open>
  C8. For a frame whose label file holds no object (its other files being present), the
  builder returns a record, not an error; every array of its annotation set is present
  and empty (the rows of \<open>bbox\<close> have four entries and those of \<open>dimensions\<close> and
  \<open>location\<close> three, by their types), \<open>index\<close> and \<open>gt_boxes_lidar\<close> are empty, and with
  point counting enabled \<open>num_points_in_gt\<close> is the empty array.
\<close>

theorem empty_frame_annotations:
  assumes "get_image_shape ds fs sample_idx = Inr shp"
    and "get_calib ds fs sample_idx = Inr c"
    and "get_label ds fs sample_idx = Inr []"
    and "count_inside_pts \<longrightarrow> get_lidar ds fs sample_idx = Inr pts"
  shows "process_single_scene ops ds fs True count_inside_pts sample_idx =
     Inr \<lparr> pc_num_features = 4, pc_lidar_idx = sample_idx, image_idx = sample_idx,
           image_shape = shp, calib = make_calib_info c,
           annos = Some
             \<lparr> name = [], truncated = [], occluded = [], alpha = [],
               bbox = ([] :: bbox2d list), dimensions = ([] :: vec3 list),
               location = ([] :: vec3 list), rotation_y = [], score = [], difficulty = [],
               index = [], gt_boxes_lidar = [],
               num_points_in_gt = (if count_inside_pts then Some [] else None) \<rparr> \<rparr>"
proof -
  have idx: "non_ignored_index [] = []"
    by (simp add: non_ignored_index_def)
  have boxes: "\<And>a. make_gt_boxes_lidar c a [] = []"
    by (simp add: make_gt_boxes_lidar_def)
  show ?thesis
    using assms(4)
    by (simp add: process_single_scene_labelled[OF assms(1,2,3), of count_inside_pts pts]
        idx boxes raw_annotations_def)
qed

theorem empty_frame_annotations_witness:
  "process_single_scene demo_ops demo_ds demo_fs True True ''6'' =
     Inr \<lparr> pc_num_features = 4, pc_lidar_idx = ''6'', image_idx = ''6'',
           image_shape = (10, 12), calib = make_calib_info demo_calib,
           annos = Some
             \<lparr> name = [], truncated = [], occluded = [], alpha = [],
               bbox = [], dimensions = [], location = [], rotation_y = [], score = [],
               difficulty = [], index = [], gt_boxes_lidar = [],
               num_points_in_gt = Some [] \<rparr> \<rparr>"
proof -
  have shp: "get_image_shape demo_ds demo_fs ''6'' = Inr (10, 12)"
    by (simp add: get_image_shape_def frame_root_def demo_ds_def demo_fs_def path_join_def)
  have c: "get_calib demo_ds demo_fs ''6'' = Inr demo_calib"
    by (simp add: get_calib_def frame_root_def demo_ds_def demo_fs_def path_join_def)
  have objs: "get_label demo_ds demo_fs ''6'' = Inr []"
    by (simp add: get_label_def frame_root_def demo_ds_def demo_fs_def path_join_def)
  have pts: "True \<longrightarrow> get_lidar demo_ds demo_fs ''6'' = Inr demo_points"
    by (simp add: get_lidar_def frame_root_def demo_ds_def demo_fs_def path_join_def)
  show ?thesis
    using empty_frame_annotations [OF shp c objs pts, of demo_ops] by simp
qed

subsection \<open>Claims about the FOV filter\<close>

text \<open>
  C3. The mask of \<open>get_fov_flag\<close> has one entry per point, in the order of the points. The
  entry of a point is true exactly when the pixel \<open>x\<close> of its projection lies in
  \<open>[-m, width + m)\<close>, the pixel \<open>y\<close> in \<open>[-m, height + m)\<close> and the depth is not negative.
  So for a margin that is not negative and an image of positive width and height, a point
  projected to the pixel \<open>(0, 0)\<close> with positive depth is kept; and a point of negative
  depth is never kept.
\<close>

theorem get_fov_flag_mask:
  "length (get_fov_flag pts_rect (h, w) c m) = length pts_rect
   \<and> (\<forall>i. i < length pts_rect \<longrightarrow>
        (get_fov_flag pts_rect (h, w) c m ! i \<longleftrightarrow>
           - real_of_int m \<le> fst (fst (rect_to_img c (pts_rect ! i)))
           \<and> fst (fst (rect_to_img c (pts_rect ! i))) < real_of_int (w + m)
           \<and> - real_of_int m \<le> snd (fst (rect_to_img c (pts_rect ! i)))
           \<and> snd (fst (rect_to_img c (pts_rect ! i))) < real_of_int (h + m)
           \<and> 0 \<le> snd (rect_to_img c (pts_rect ! i))))
   \<and> (\<forall>i. i < length pts_rect \<and> 0 \<le> m \<and> 0 < w \<and> 0 < h
          \<and> fst (rect_to_img c (pts_rect ! i)) = (0, 0)
          \<and> 0 < snd (rect_to_img c (pts_rect ! i))
        \<longrightarrow> get_fov_flag pts_rect (h, w) c m ! i)
   \<and> (\<forall>i. i < length pts_rect \<and> snd (rect_to_img c (pts_rect ! i)) < 0
        \<longrightarrow> \<not> get_fov_flag pts_rect (h, w) c m ! i)"
  by (auto simp: get_fov_flag_def fov_point_def Let_def split: prod.splits)

theorem get_fov_flag_mask_witness:
  "length (get_fov_flag [(0, 0, 1), (5, 5, - 1), (12, 5, 2)] (10, 12) demo_calib 0) = 3
   \<and> get_fov_flag [(0, 0, 1), (5, 5, - 1), (12, 5, 2)] (10, 12) demo_calib 0 ! 0
   \<and> \<not> get_fov_flag [(0, 0, 1), (5, 5, - 1), (12, 5, 2)] (10, 12) demo_calib 0 ! 1
   \<and> \<not> get_fov_flag [(0, 0, 1), (5, 5, - 1), (12, 5, 2)] (10, 12) demo_calib 0 ! 2"
proof -
  let ?pts = "[(0, 0, 1), (5, 5, - 1), (12, 5, 2)] :: vec3 list"
  note spec = get_fov_flag_mask [of ?pts 10 12 demo_calib 0]
  have img: "rect_to_img demo_calib (?pts ! 0) = ((0, 0), 1)"
    "rect_to_img demo_calib (?pts ! 1) = ((5, 5), - 1)"
    "rect_to_img demo_calib (?pts ! 2) = ((12, 5), 2)"
    by (simp_all add: demo_calib_def)
  have len: "length (get_fov_flag ?pts (10, 12) demo_calib 0) = 3"
    using spec by simp
  have first: "get_fov_flag ?pts (10, 12) demo_calib 0 ! 0"
    using spec[THEN conjunct2, THEN conjunct2, THEN conjunct1, rule_format, of 0] img(1)
    by simp
  have second: "\<not> get_fov_flag ?pts (10, 12) demo_calib 0 ! 1"
    using spec[THEN conjunct2, THEN conjunct2, THEN conjunct2, rule_format, of 1] img(2)
    by simp
  have third: "\<not> get_fov_flag ?pts (10, 12) demo_calib 0 ! 2"
    using spec[THEN conjunct2, THEN conjunct1, rule_format, of 2] img(3)
    by simp
  show ?thesis
    using len first second third by blast
qed

subsection \<open>Claims about the accessors\<close>

text \<open>What each accessor returns for a frame whose file is missing.\<close>

lemma get_lidar_missing:
  assumes "frame_root ds idx = Inr dir"
    and "lidar_files fs (path_join (path_join dir ''velodyne'') (idx @ ''.bin'')) = None"
  shows "get_lidar ds fs idx =
     Inl (AssertionError (''Lidar files '' @ dir @ ''/velodyne/'' @ idx @ ''.bin ''))"
  using assms by (simp add: get_lidar_def path_join_def)

lemma get_image_shape_missing:
  assumes "frame_root ds idx = Inr dir"
    and "image_files fs (path_join (path_join dir ''image_0'') (idx @ ''.jpg'')) = None"
  shows "get_image_shape ds fs idx =
     Inl (AssertionError (''Image file '' @ dir @ ''/image_0/'' @ idx @ ''.jpg does not exist''))"
  using assms by (simp add: get_image_shape_def path_join_def)

lemma get_label_missing:
  assumes "frame_root ds idx = Inr dir"
    and "label_files fs (path_join (path_join dir ''label_0'') (idx @ ''.txt'')) = None"
  shows "get_label ds fs idx =
     Inl (AssertionError (''Label file '' @ dir @ ''/label_0/'' @ idx @ ''.txt does not exist''))"
  using assms by (simp add: get_label_def path_join_def)

lemma get_calib_missing:
  assumes "frame_root ds idx = Inr dir"
    and "calib_files fs (path_join (path_join dir ''calib'') (idx @ ''.txt'')) = None"
  shows "get_calib ds fs idx = Inl (AssertionError [])"
  using assms by (simp add: get_calib_def)

text \<open>A frame that fails makes the whole batch fail: no list of records is returned.\<close>

lemma collect_fails:
  "x \<in> set xs \<Longrightarrow> f x = Inl e \<Longrightarrow> \<exists>e'. collect f xs = Inl e'"
  by (induction xs) (auto split: sum.splits)

lemma get_infos_fails:
  assumes "sample_idx \<in> set ids"
    and "process_single_scene ops ds fs has_label count_inside_pts sample_idx = Inl e"
  shows "\<exists>e'. get_infos ops ds fs has_label count_inside_pts (Some ids) = Inl e'"
  using collect_fails[of sample_idx ids
      "process_single_scene ops ds fs has_label count_inside_pts" e] assms
  by (simp add: get_infos_def)

text \<open>
  C9. A frame whose calibration file is missing: \<open>get_calib\<close> fails at once and the batch
  that contains the frame returns no record list, but the error carries no message: it
  names neither the frame nor the missing file. The accessor of the label file, for
  frame \<open>8\<close>, reports the path, which holds the frame id and the resource.
\<close>

theorem get_calib_missing_file_no_message:
  "get_calib demo_ds demo_fs ''9'' = Inl (AssertionError [])
   \<and> process_single_scene demo_ops demo_ds demo_fs True True ''9'' = Inl (AssertionError [])
   \<and> get_infos demo_ops demo_ds demo_fs True True (Some [''7'', ''9'']) = Inl (AssertionError [])
   \<and> get_label demo_ds demo_fs ''8'' =
       Inl (AssertionError ''Label file data/training/label_0/8.txt does not exist'')"
proof -
  have dir: "\<And>idx. frame_root demo_ds idx = Inr ''data/training''"
    by (simp add: frame_root_def demo_ds_def)
  have c9: "get_calib demo_ds demo_fs ''9'' = Inl (AssertionError [])"
    by (rule get_calib_missing[OF dir]) (simp add: demo_fs_def path_join_def)
  have shp9: "get_image_shape demo_ds demo_fs ''9'' = Inr (10, 12)"
    by (simp add: get_image_shape_def dir demo_fs_def path_join_def)
  have p9: "process_single_scene demo_ops demo_ds demo_fs True True ''9'' = Inl (AssertionError [])"
    by (simp add: process_single_scene_def on_success_def shp9 c9)
  have p7: "\<exists>frame. process_single_scene demo_ops demo_ds demo_fs True True ''7'' = Inr frame"
    using process_single_scene_labelled
      [OF demo_shape demo_get_calib demo_label, of True demo_points demo_ops] demo_lidar
    by simp
  have batch: "get_infos demo_ops demo_ds demo_fs True True (Some [''7'', ''9''])
      = Inl (AssertionError [])"
    using p7 by (auto simp: get_infos_def p9)
  have l8: "get_label demo_ds demo_fs ''8'' =
       Inl (AssertionError ''Label file data/training/label_0/8.txt does not exist'')"
    using get_label_missing[OF dir, of demo_fs "''8''"] by (simp add: demo_fs_def path_join_def)
  show ?thesis
    using c9 p9 batch l8 by blast
qed

subsection \<open>Double precision\<close>

lemma round_half_even_nonneg: "0 \<le> x \<Longrightarrow> 0 \<le> round_half_even x"
  by (auto simp: round_half_even_def Let_def)

lemma fl64_zero: "fl64 0 = 0"
  by (simp add: fl64_def)

lemma fl64_nonneg: "0 \<le> x \<Longrightarrow> 0 \<le> fl64 x"
  by (auto simp: fl64_def Let_def sgn_real_def intro!: mult_nonneg_nonneg round_half_even_nonneg)

text \<open>The value of \<open>fl64\<close> at a positive number whose binade is known.\<close>

lemma fl64_eval:
  assumes "0 < x" and "2 powr real_of_int e \<le> x" and "x < 2 powr (real_of_int e + 1)"
  shows "fl64 x = real_of_int (round_half_even (x / 2 powr (real_of_int e - 52)))
                    * 2 powr (real_of_int e - 52)"
proof -
  have "\<lfloor>log 2 x\<rfloor> = e"
    using assms by (simp add: floor_log_eq_powr_iff)
  then show ?thesis
    using assms(1) by (simp add: fl64_def Let_def)
qed

lemma powr_neg_nat: "2 powr (- real n) = 1 / 2 ^ n"
  by (simp add: powr_minus powr_realpow inverse_eq_divide)

lemma fl64_eval_small:
  assumes "1 / 2 ^ k \<le> x" and "x < 2 / 2 ^ k"
  shows "fl64 x = real_of_int (round_half_even (x * 2 ^ (k + 52))) / 2 ^ (k + 52)"
proof -
  have pos: "0 < x"
    using assms(1) by (smt (verit) divide_pos_pos zero_less_power)
  have a: "2 powr real_of_int (- int k) = 1 / 2 ^ k"
    by (simp add: powr_minus powr_realpow inverse_eq_divide)
  have b: "2 powr (real_of_int (- int k) + 1) = 2 / 2 ^ k"
    unfolding powr_add a by simp
  have c: "2 powr (real_of_int (- int k) - 52) = 1 / 2 ^ (k + 52)"
  proof -
    have "real_of_int (- int k) - 52 = - real (k + 52)" by simp
    then show ?thesis
      by (simp only: powr_neg_nat)
  qed
  show ?thesis
    using fl64_eval[of x "- int k"] pos assms unfolding a b c by simp
qed

lemma fl64_eval_large:
  assumes "2 ^ k \<le> x" and "x < 2 * 2 ^ k" and "k \<le> 52"
  shows "fl64 x = real_of_int (round_half_even (x * 2 ^ (52 - k))) / 2 ^ (52 - k)"
proof -
  have pos: "0 < x"
    using assms(1) by (smt (verit) zero_less_power)
  have a: "2 powr real_of_int (int k) = 2 ^ k"
    by (simp add: powr_realpow)
  have b: "2 powr (real_of_int (int k) + 1) = 2 * 2 ^ k"
    unfolding powr_add a by simp
  have c: "2 powr (real_of_int (int k) - 52) = 1 / 2 ^ (52 - k)"
  proof -
    have "real_of_int (int k) - 52 = - real (52 - k)" using assms(3) by simp
    then show ?thesis
      by (simp only: powr_neg_nat)
  qed
  show ?thesis
    using fl64_eval[of x "int k"] pos assms unfolding a b c by simp
qed

text \<open>The double nearest to \<open>1 / 1000\<close>, the literal \<open>1e-3\<close>.\<close>

lemma fl64_eps: "fl64 (1 / 1000) = 1152921504606847 / 1152921504606846976"
  by (subst fl64_eval_small[where k = 10]) (simp_all add: round_half_even_def Let_def)

text \<open>
  The numbers of the example corpus: two classes, four memberships, three of \<open>Car\<close> and
  one of \<open>Pedestrian\<close>. The products are \<open>1.997336884154461\<close> and \<open>1.9920318725099602\<close>.
\<close>

lemma float_product_car: "float_product 2 3 4 = 4497602823605689 / 2251799813685248"
proof -
  have two: "fl64 2 = 2"
    by (subst fl64_eval_large[where k = 1]) (simp_all add: round_half_even_def Let_def)
  have three: "fl64 3 = 3"
    by (subst fl64_eval_large[where k = 1]) (simp_all add: round_half_even_def Let_def)
  have frac: "fl64 (1 / 2) = 1 / 2"
    by (subst fl64_eval_small[where k = 1]) (simp_all add: round_half_even_def Let_def)
  have share: "fl64 (3 / 4) = 3 / 4"
    by (subst fl64_eval_small[where k = 1]) (simp_all add: round_half_even_def Let_def)
  have sum: "fl64 (3 / 4 + 1152921504606847 / 1152921504606846976)
      = 6764406640310485 / 9007199254740992"
    by (subst fl64_eval_small[where k = 1]) (simp_all add: round_half_even_def Let_def)
  have ratio: "fl64 (1 / 2 / (6764406640310485 / 9007199254740992))
      = 5996803764807585 / 9007199254740992"
    by (subst fl64_eval_small[where k = 1]) (simp_all add: round_half_even_def Let_def)
  have prod: "fl64 (3 * (5996803764807585 / 9007199254740992))
      = 4497602823605689 / 2251799813685248"
    by (subst fl64_eval_large[where k = 0]) (simp_all add: round_half_even_def Let_def)
  show ?thesis
    unfolding float_product_def float_ratio_def
    by (simp only: of_nat_numeral two three frac share fl64_eps sum ratio prod)
qed

lemma float_product_pedestrian: "float_product 2 1 4 = 1121414249843251 / 562949953421312"
proof -
  have two: "fl64 2 = 2"
    by (subst fl64_eval_large[where k = 1]) (simp_all add: round_half_even_def Let_def)
  have one: "fl64 1 = 1"
    by (subst fl64_eval_large[where k = 0]) (simp_all add: round_half_even_def Let_def)
  have frac: "fl64 (1 / 2) = 1 / 2"
    by (subst fl64_eval_small[where k = 1]) (simp_all add: round_half_even_def Let_def)
  have share: "fl64 (1 / 4) = 1 / 4"
    by (subst fl64_eval_small[where k = 2]) (simp_all add: round_half_even_def Let_def)
  have sum: "fl64 (1 / 4 + 1152921504606847 / 1152921504606846976)
      = 2260807012939989 / 9007199254740992"
    by (subst fl64_eval_small[where k = 2]) (simp_all add: round_half_even_def Let_def)
  have ratio: "fl64 (1 / 2 / (2260807012939989 / 9007199254740992))
      = 1121414249843251 / 562949953421312"
    by (subst fl64_eval_large[where k = 0]) (simp_all add: round_half_even_def Let_def)
  have prod: "fl64 (1 * (1121414249843251 / 562949953421312))
      = 1121414249843251 / 562949953421312"
    by (subst fl64_eval_large[where k = 0]) (simp_all add: round_half_even_def Let_def)
  show ?thesis
    unfolding float_product_def float_ratio_def
    by (simp only: of_nat_numeral of_nat_1 two one frac share fl64_eps sum ratio prod)
qed

text \<open>
  Rounding matters: for six classes and a class with 9 of 375 memberships the exact
  product is 60, the product in double precision is \<open>59.99999999999999\<close>, and 59 records
  are drawn.
\<close>

lemma float_product_below_exact:
  "float_product 6 9 375 = 8444249301319679 / 140737488355328"
  "py_int (float_product 6 9 375) = 59"
  "\<lfloor>9 * ((1 / 6) / (9 / 375 + 1 / 1000 :: real))\<rfloor> = 60"
proof -
  have six: "fl64 6 = 6"
    by (subst fl64_eval_large[where k = 2]) (simp_all add: round_half_even_def Let_def)
  have nine: "fl64 9 = 9"
    by (subst fl64_eval_large[where k = 3]) (simp_all add: round_half_even_def Let_def)
  have frac: "fl64 (1 / 6) = 6004799503160661 / 36028797018963968"
    by (subst fl64_eval_small[where k = 3]) (simp_all add: round_half_even_def Let_def)
  have share: "fl64 (9 / 375) = 3458764513820541 / 144115188075855872"
    by (subst fl64_eval_small[where k = 6]) (simp_all add: round_half_even_def Let_def)
  have sum: "fl64 (3458764513820541 / 144115188075855872
                   + 1152921504606847 / 1152921504606846976)
      = 3602879701896397 / 144115188075855872"
    by (subst fl64_eval_small[where k = 6]) (simp_all add: round_half_even_def Let_def)
  have ratio: "fl64 (6004799503160661 / 36028797018963968
                     / (3602879701896397 / 144115188075855872))
      = 3752999689475413 / 562949953421312"
    by (subst fl64_eval_large[where k = 2]) (simp_all add: round_half_even_def Let_def)
  have prod: "fl64 (9 * (3752999689475413 / 562949953421312))
      = 8444249301319679 / 140737488355328"
    by (subst fl64_eval_large[where k = 5]) (simp_all add: round_half_even_def Let_def)
  show p: "float_product 6 9 375 = 8444249301319679 / 140737488355328"
    unfolding float_product_def float_ratio_def
    by (simp only: of_nat_numeral six nine frac share fl64_eps sum ratio prod)
  show "py_int (float_product 6 9 375) = 59"
    unfolding p by (simp add: py_int_def)
  show "\<lfloor>9 * ((1 / 6) / (9 / 375 + 1 / 1000 :: real))\<rfloor> = 60"
    by simp
qed

subsection \<open>The balanced resampler\<close>

lemma set_dict_keys: "set (dict_keys ks) = set ks"
  by (induction ks rule: dict_keys.induct) auto

lemma distinct_dict_keys: "distinct (dict_keys ks)"
  by (induction ks rule: dict_keys.induct) (auto simp: set_dict_keys)

lemma dict_keys_empty: "dict_keys ks = [] \<longleftrightarrow> ks = []"
  by (cases ks) simp_all

text \<open>One record is appended to the list of every class it contains.\<close>

lemma add_info_fold:
  "distinct ns \<Longrightarrow>
   fold (\<lambda>nm d'. if nm \<in> set cls_names then dict_append nm frame d' else d') ns d =
     map (\<lambda>(k, vs). if k \<in> set ns \<and> k \<in> set cls_names then (k, vs @ [frame]) else (k, vs)) d"
proof (induction ns arbitrary: d)
  case Nil
  show ?case by (simp add: case_prod_beta)
next
  case (Cons n ns)
  then have IH: "\<And>d. fold (\<lambda>nm d'. if nm \<in> set cls_names then dict_append nm frame d' else d') ns d =
     map (\<lambda>(k, vs). if k \<in> set ns \<and> k \<in> set cls_names then (k, vs @ [frame]) else (k, vs)) d"
    and n: "n \<notin> set ns"
    by simp_all
  show ?case
    using n by (auto simp: IH dict_append_def)
qed

lemma add_info_map:
  "add_info cls_names frame names d =
     map (\<lambda>(k, vs). if k \<in> set names \<and> k \<in> set cls_names then (k, vs @ [frame]) else (k, vs)) d"
  unfolding add_info_def by (simp add: add_info_fold)

lemma group_infos_map:
  "\<forall>frame\<in>set infos. annos frame \<noteq> None \<Longrightarrow>
   group_infos cls_names infos d =
     Inr (map (\<lambda>(k, vs). (k, vs @ filter (\<lambda>frame. k \<in> set (name (the (annos frame)))
                                          \<and> k \<in> set cls_names) infos)) d)"
proof (induction infos arbitrary: d)
  case Nil
  show ?case by (simp add: case_prod_beta)
next
  case (Cons frame infos)
  then obtain a where a: "annos frame = Some a"
    by auto
  have rest: "\<forall>frame\<in>set infos. annos frame \<noteq> None"
    using Cons.prems by simp
  show ?case
    by (auto simp: a Cons.IH[OF rest] add_info_map)
qed

lemma class_records_filter:
  assumes "\<forall>frame\<in>set infos. annos frame \<noteq> None"
  shows "filter (\<lambda>frame. k \<in> set (name (the (annos frame)))) infos = spec_class_records infos k"
  unfolding spec_class_records_def
  using assms by (intro filter_cong) (auto split: option.splits)

lemma group_infos_classes:
  assumes "\<forall>frame\<in>set infos. annos frame \<noteq> None"
  shows "group_infos cls_names infos (map (\<lambda>nm. (nm, [])) (dict_keys cls_names)) =
     Inr (map (\<lambda>k. (k, spec_class_records infos k)) (dict_keys cls_names))"
proof -
  have "map (\<lambda>(k, vs). (k, vs @ filter (\<lambda>frame. k \<in> set (name (the (annos frame)))
                                          \<and> k \<in> set cls_names) infos))
          (map (\<lambda>nm. (nm, [])) (dict_keys cls_names))
      = map (\<lambda>k. (k, filter (\<lambda>frame. k \<in> set (name (the (annos frame)))
                                          \<and> k \<in> set cls_names) infos)) (dict_keys cls_names)"
    by (simp add: comp_def)
  also have "\<dots> = map (\<lambda>k. (k, spec_class_records infos k)) (dict_keys cls_names)"
  proof (rule map_cong[OF refl])
    fix k assume "k \<in> set (dict_keys cls_names)"
    then have k: "k \<in> set cls_names"
      by (simp add: set_dict_keys)
    have "filter (\<lambda>frame. k \<in> set (name (the (annos frame))) \<and> k \<in> set cls_names) infos
        = filter (\<lambda>frame. k \<in> set (name (the (annos frame)))) infos"
      using k by simp
    then show "(k, filter (\<lambda>frame. k \<in> set (name (the (annos frame)))
                             \<and> k \<in> set cls_names) infos) = (k, spec_class_records infos k)"
      by (simp only: class_records_filter[OF assms])
  qed
  finally show ?thesis
    by (simp only: group_infos_map[OF assms])
qed

lemma spec_class_records_subset: "set (spec_class_records infos k) \<subseteq> set infos"
  by (auto simp: spec_class_records_def)

text \<open>The sampling loop: one draw list per class, of the truncated size, out of the
  records of the class.\<close>

lemma random_choice_ok:
  assumes "0 \<le> ratio"
  shows "\<exists>drawn. random_choice tape pos a (py_int (fl64 (fl64 (real (length a)) * ratio)))
             = Inr drawn
           \<and> length drawn = nat (py_int (fl64 (fl64 (real (length a)) * ratio)))
           \<and> set drawn \<subseteq> set a"
proof -
  let ?p = "fl64 (fl64 (real (length a)) * ratio)"
  have "0 \<le> fl64 (real (length a)) * ratio"
    using assms by (intro mult_nonneg_nonneg fl64_nonneg) simp_all
  then have nonneg: "0 \<le> ?p"
    by (rule fl64_nonneg)
  then have n0: "0 \<le> py_int ?p"
    by (simp add: py_int_def)
  show ?thesis
  proof (cases "a = []")
    case True
    then show ?thesis by (simp add: random_choice_def py_int_def fl64_zero)
  next
    case False
    then have "\<And>j. a ! (tape (pos + j) mod length a) \<in> set a"
      by simp
    then show ?thesis
      using False n0 by (auto simp: random_choice_def)
  qed
qed

lemma sample_classes_ok:
  "\<forall>cr\<in>set crs. 0 \<le> snd cr \<Longrightarrow>
   \<exists>draws. sample_classes tape pos crs = Inr (concat draws)
     \<and> length draws = length crs
     \<and> (\<forall>j<length crs.
           length (draws ! j)
             = nat (py_int (fl64 (fl64 (real (length (fst (crs ! j)))) * snd (crs ! j))))
           \<and> set (draws ! j) \<subseteq> set (fst (crs ! j)))"
proof (induction crs arbitrary: pos)
  case Nil
  show ?case
    by (intro exI[of _ "[]"]) simp
next
  case (Cons cr crs)
  obtain cur ratio where cr: "cr = (cur, ratio)"
    by (cases cr)
  have ratio: "0 \<le> ratio"
    using Cons.prems cr by simp
  obtain drawn where drawn:
    "random_choice tape pos cur (py_int (fl64 (fl64 (real (length cur)) * ratio))) = Inr drawn"
    "length drawn = nat (py_int (fl64 (fl64 (real (length cur)) * ratio)))"
    "set drawn \<subseteq> set cur"
    using random_choice_ok[OF ratio, of tape pos cur]
    by (elim exE conjE) (rule that)
  have rest: "\<forall>cr\<in>set crs. 0 \<le> snd cr"
    using Cons.prems by simp
  obtain draws where draws:
    "sample_classes tape (pos + length drawn) crs = Inr (concat draws)"
    "length draws = length crs"
    "\<forall>j<length crs.
        length (draws ! j)
          = nat (py_int (fl64 (fl64 (real (length (fst (crs ! j)))) * snd (crs ! j))))
        \<and> set (draws ! j) \<subseteq> set (fst (crs ! j))"
    using Cons.IH[OF rest, of "pos + length drawn"]
    by (elim exE conjE) (rule that)
  have run: "sample_classes tape pos (cr # crs) = Inr (concat (drawn # draws))"
    by (simp add: cr on_success_def drawn(1) draws(1))
  have each: "\<forall>j<length (cr # crs).
        length ((drawn # draws) ! j)
          = nat (py_int (fl64 (fl64 (real (length (fst ((cr # crs) ! j))))
                                 * snd ((cr # crs) ! j))))
        \<and> set ((drawn # draws) ! j) \<subseteq> set (fst ((cr # crs) ! j))"
  proof (intro allI impI)
    fix j assume "j < length (cr # crs)"
    then show "length ((drawn # draws) ! j)
          = nat (py_int (fl64 (fl64 (real (length (fst ((cr # crs) ! j))))
                                 * snd ((cr # crs) ! j))))
        \<and> set ((drawn # draws) ! j) \<subseteq> set (fst ((cr # crs) ! j))"
      using drawn(2,3) draws(3) by (cases j) (simp_all add: cr)
  qed
  have len: "length (drawn # draws) = length (cr # crs)"
    using draws(2) by simp
  show ?case
    using run len each by (intro exI[of _ "drawn # draws"] conjI)
qed

lemma float_ratio_nonneg: "0 \<le> float_ratio n m t"
  unfolding float_ratio_def
  by (intro fl64_nonneg divide_nonneg_nonneg add_nonneg_nonneg) simp_all

text \<open>The run of the resampler up to the sampling loop.\<close>

lemma balanced_infos_resampling_run:
  assumes cn: "class_names ds = Some cls_names" "cls_names \<noteq> []"
    and annos: "\<forall>frame\<in>set infos. annos frame \<noteq> None"
    and dup: "0 < spec_memberships cls_names infos"
  shows "balanced_infos_resampling tape ds infos =
     on_success
       (sample_classes tape 0
          (map (\<lambda>k. (spec_class_records infos k,
                      float_ratio (length cls_names) (length (spec_class_records infos k))
                        (spec_memberships cls_names infos)))
             (dict_keys cls_names)))
       (\<lambda>sampled_infos.
          if \<not> has_logger ds then Inl AttributeError
          else
            on_success
              (group_infos cls_names sampled_infos
                 (map (\<lambda>nm. (nm, [])) (dict_keys cls_names)))
              (\<lambda>cls_infos_new.
                 if length sampled_infos = 0 then Inl ZeroDivisionError
                 else Inr sampled_infos))"
proof -
  let ?keys = "dict_keys cls_names"
  let ?cls = "map (\<lambda>k. (k, spec_class_records infos k)) ?keys"
  let ?t = "spec_memberships cls_names infos"
  let ?ratio = "\<lambda>k. float_ratio (length cls_names) (length (spec_class_records infos k)) ?t"
  have total: "sum_list (map (\<lambda>(k, v). length v) ?cls) = ?t"
    by (simp add: spec_memberships_def comp_def)
  have ratios: "map (\<lambda>(k, v). fl64 (fl64 (1 / fl64 (real (length cls_names)))
                                      / fl64 (v + fl64 (1 / 1000))))
                  (map (\<lambda>(k, v). (k, fl64 (real (length v) / real ?t))) ?cls)
              = map ?ratio ?keys"
    by (simp add: comp_def float_ratio_def)
  have zipped: "zip (map snd ?cls) (map ?ratio ?keys)
              = map (\<lambda>k. (spec_class_records infos k, ?ratio k)) ?keys"
    by (simp add: zip_map_map comp_def zip_same_conv_map)
  show ?thesis
    unfolding balanced_infos_resampling_def
    using cn(2) dup
    by (simp only: cn(1) option.case group_infos_classes[OF annos] on_success_def sum.case
        Let_def total ratios zipped)
       simp
qed

text \<open>
  C4, amended. For a vocabulary of \<open>N\<close> classes, a logger, a corpus in which every record
  has annotations, at least one membership of a record in a class set, and at least one
  class whose draw count is positive, the resampler returns the concatenation, over the
  classes in the order of the vocabulary, of one draw list per class. The draw list of a
  class has \<open>int(|classRecords| * ratio)\<close> records, where
  \<open>ratio = (1 / N) / (share + 1e-3)\<close>, \<open>share\<close> is the share of the class in the
  memberships counted with multiplicity, and every operation is carried out in double
  precision; the product is truncated, not rounded to the nearest integer. Each record
  of the draw list is a record of the class (drawn with replacement).
\<close>

theorem balanced_resampling_truncated_draws:
  assumes "class_names ds = Some cls_names"
    and "cls_names \<noteq> []"
    and "has_logger ds"
    and "\<forall>frame\<in>set infos. annos frame \<noteq> None"
    and "0 < spec_memberships cls_names infos"
    and "\<exists>k\<in>set cls_names. 0 < draw_count cls_names infos k"
  shows "\<exists>draws.
     balanced_infos_resampling tape ds infos = Inr (concat draws)
     \<and> length draws = length (dict_keys cls_names)
     \<and> (\<forall>j<length (dict_keys cls_names).
           length (draws ! j) =
             nat (py_int
               (fl64 (fl64 (real (length (spec_class_records infos (dict_keys cls_names ! j))))
                      * fl64 (fl64 (1 / fl64 (real (length cls_names)))
                              / fl64 (fl64 (real (length (spec_class_records infos
                                                             (dict_keys cls_names ! j)))
                                             / real (spec_memberships cls_names infos))
                                      + fl64 (1 / 1000))))))
           \<and> set (draws ! j) \<subseteq> set (spec_class_records infos (dict_keys cls_names ! j)))"
proof -
  let ?keys = "dict_keys cls_names"
  let ?t = "spec_memberships cls_names infos"
  let ?ratio = "\<lambda>k. float_ratio (length cls_names) (length (spec_class_records infos k)) ?t"
  let ?crs = "map (\<lambda>k. (spec_class_records infos k, ?ratio k)) ?keys"
  have "\<forall>cr\<in>set ?crs. 0 \<le> snd cr"
    by (auto simp: float_ratio_nonneg)
  from sample_classes_ok[OF this, of tape 0]
  obtain draws where run: "sample_classes tape 0 ?crs = Inr (concat draws)"
    and len: "length draws = length ?crs"
    and each: "\<forall>j<length ?crs.
           length (draws ! j)
             = nat (py_int (fl64 (fl64 (real (length (fst (?crs ! j)))) * snd (?crs ! j))))
           \<and> set (draws ! j) \<subseteq> set (fst (?crs ! j))"
    by (elim exE conjE) (rule that)
  have len': "length draws = length ?keys"
    using len by simp
  have each': "length (draws ! j) = draw_count cls_names infos (?keys ! j)
           \<and> set (draws ! j) \<subseteq> set (spec_class_records infos (?keys ! j))"
    if "j < length ?keys" for j
    using each that by (simp add: draw_count_def float_product_def)
  have sub: "set (concat draws) \<subseteq> set infos"
  proof
    fix x assume "x \<in> set (concat draws)"
    then obtain d where d: "d \<in> set draws" "x \<in> set d"
      by auto
    then obtain j where j: "j < length draws" "d = draws ! j"
      by (auto simp: in_set_conv_nth)
    then have "set d \<subseteq> set (spec_class_records infos (?keys ! j))"
      using each'[of j] len' by simp
    then show "x \<in> set infos"
      using d(2) spec_class_records_subset by blast
  qed
  have annos': "\<forall>frame\<in>set (concat draws). annos frame \<noteq> None"
    using sub assms(4) by blast
  obtain k where k: "k \<in> set ?keys" "0 < draw_count cls_names infos k"
    using assms(6) by (auto simp: set_dict_keys)
  then obtain j where j: "j < length ?keys" "?keys ! j = k"
    by (auto simp: in_set_conv_nth)
  have "draws ! j \<noteq> []"
    using each'[OF j(1)] j(2) k(2) by auto
  moreover have "draws ! j \<in> set draws"
    using j(1) len' by simp
  ultimately have nonempty: "concat draws \<noteq> []"
    by auto
  have result: "balanced_infos_resampling tape ds infos = Inr (concat draws)"
    using nonempty assms(3)
    by (simp add: balanced_infos_resampling_run[OF assms(1,2,4,5)] run on_success_def
        group_infos_classes[OF annos'])
  have each'': "\<forall>j<length ?keys.
           length (draws ! j) =
             nat (py_int
               (fl64 (fl64 (real (length (spec_class_records infos (?keys ! j))))
                      * fl64 (fl64 (1 / fl64 (real (length cls_names)))
                              / fl64 (fl64 (real (length (spec_class_records infos (?keys ! j)))
                                             / real ?t)
                                      + fl64 (1 / 1000))))))
           \<and> set (draws ! j) \<subseteq> set (spec_class_records infos (?keys ! j))"
    using each' by (simp add: draw_count_def float_product_def float_ratio_def)
  show ?thesis
    using result len' each'' by (intro exI[of _ draws] conjI)
qed

lemma demo_corpus_annos: "\<forall>frame\<in>set demo_corpus. annos frame \<noteq> None"
  by (simp add: demo_corpus_def demo_info_def)

lemma demo_class_records:
  "spec_class_records demo_corpus ''Car'' =
     [demo_info ''1'' [''Car'', ''Car''], demo_info ''2'' [''Car'', ''Tree''],
      demo_info ''3'' [''Car'', ''Car'']]"
  "spec_class_records demo_corpus ''Pedestrian'' = [demo_info ''4'' [''Pedestrian'', ''Tree'']]"
  by (simp_all add: spec_class_records_def demo_corpus_def demo_info_def demo_annos_def)

lemma demo_keys: "dict_keys [''Car'', ''Pedestrian''] = [''Car'', ''Pedestrian'']"
  by simp

lemma demo_lengths:
  "length [''Car'', ''Pedestrian''] = 2"
  "length (spec_class_records demo_corpus ''Car'') = 3"
  "length (spec_class_records demo_corpus ''Pedestrian'') = 1"
  by (simp_all add: demo_class_records)

lemma demo_memberships: "spec_memberships [''Car'', ''Pedestrian''] demo_corpus = 4"
  by (simp add: spec_memberships_def demo_class_records)

lemma demo_ratios:
  "spec_ratio [''Car'', ''Pedestrian''] demo_corpus ''Car'' = 500 / 751"
  "spec_ratio [''Car'', ''Pedestrian''] demo_corpus ''Pedestrian'' = 500 / 251"
  by (simp_all add: spec_ratio_def demo_memberships demo_class_records)

lemma demo_products:
  "float_product (length [''Car'', ''Pedestrian''])
     (length (spec_class_records demo_corpus ''Car''))
     (spec_memberships [''Car'', ''Pedestrian''] demo_corpus)
   = 4497602823605689 / 2251799813685248"
  "float_product (length [''Car'', ''Pedestrian''])
     (length (spec_class_records demo_corpus ''Pedestrian''))
     (spec_memberships [''Car'', ''Pedestrian''] demo_corpus)
   = 1121414249843251 / 562949953421312"
  by (simp_all only: demo_lengths demo_memberships float_product_car float_product_pedestrian)

lemma demo_draw_counts:
  "draw_count [''Car'', ''Pedestrian''] demo_corpus ''Car'' = 1"
  "draw_count [''Car'', ''Pedestrian''] demo_corpus ''Pedestrian'' = 1"
  unfolding draw_count_def demo_products
  by (simp_all add: py_int_def)

theorem balanced_resampling_truncated_draws_witness:
  "\<exists>draws.
     balanced_infos_resampling demo_tape demo_ds demo_corpus = Inr (concat draws)
     \<and> length draws = 2
     \<and> length (draws ! 0) = 1
     \<and> set (draws ! 0) \<subseteq> set (spec_class_records demo_corpus ''Car'')
     \<and> length (draws ! 1) = 1
     \<and> set (draws ! 1) \<subseteq> set (spec_class_records demo_corpus ''Pedestrian'')"
proof -
  have cn: "class_names demo_ds = Some [''Car'', ''Pedestrian'']"
    and logger: "has_logger demo_ds"
    by (simp_all add: demo_ds_def)
  have ne: "[''Car'', ''Pedestrian''] \<noteq> ([] :: string list)"
    by simp
  have dup: "0 < spec_memberships [''Car'', ''Pedestrian''] demo_corpus"
    by (simp add: demo_memberships)
  have pos: "\<exists>k\<in>set [''Car'', ''Pedestrian'']. 0 < draw_count [''Car'', ''Pedestrian''] demo_corpus k"
    by (simp add: demo_draw_counts)
  let ?cn = "[''Car'', ''Pedestrian'']"
  from balanced_resampling_truncated_draws [OF cn ne logger demo_corpus_annos dup pos, of demo_tape]
  obtain draws where run: "balanced_infos_resampling demo_tape demo_ds demo_corpus = Inr (concat draws)"
    and len: "length draws = length (dict_keys ?cn)"
    and each: "\<forall>j<length (dict_keys ?cn).
           length (draws ! j) =
             nat (py_int
               (fl64 (fl64 (real (length (spec_class_records demo_corpus (dict_keys ?cn ! j))))
                      * fl64 (fl64 (1 / fl64 (real (length ?cn)))
                              / fl64 (fl64 (real (length (spec_class_records demo_corpus
                                                             (dict_keys ?cn ! j)))
                                             / real (spec_memberships ?cn demo_corpus))
                                      + fl64 (1 / 1000))))))
           \<and> set (draws ! j) \<subseteq> set (spec_class_records demo_corpus (dict_keys ?cn ! j))"
    by (elim exE conjE) (rule that)
  have each': "\<forall>j<length (dict_keys ?cn).
           length (draws ! j) = draw_count ?cn demo_corpus (dict_keys ?cn ! j)
           \<and> set (draws ! j) \<subseteq> set (spec_class_records demo_corpus (dict_keys ?cn ! j))"
    using each unfolding draw_count_def float_product_def float_ratio_def .
  have len2: "length draws = 2"
    using len by simp
  have car: "length (draws ! 0) = 1
      \<and> set (draws ! 0) \<subseteq> set (spec_class_records demo_corpus ''Car'')"
    using each'[rule_format, of 0] by (simp add: demo_draw_counts)
  have ped: "length (draws ! 1) = 1
      \<and> set (draws ! 1) \<subseteq> set (spec_class_records demo_corpus ''Pedestrian'')"
    using each'[rule_format, of 1] by (simp add: demo_draw_counts)
  show ?thesis
    using run len2 car ped by (intro exI[of _ draws]) simp
qed

text \<open>
  C4 as stated fails: in the example corpus the products \<open>|classRecords| * ratio\<close> are
  \<open>1500 / 751\<close> for \<open>Car\<close> and \<open>500 / 251\<close> for \<open>Pedestrian\<close>, and in double precision
  \<open>4497602823605689 / 2\<^sup>5\<^sup>1\<close> and \<open>1121414249843251 / 2\<^sup>4\<^sup>9\<close>, all between 1.99 and 2.
  They round to 2, which would give four records; the resampler truncates and returns one
  record of each class.
\<close>

theorem balanced_resampling_round_counterexample:
  "balanced_infos_resampling demo_tape demo_ds demo_corpus =
     Inr [demo_info ''1'' [''Car'', ''Car''], demo_info ''4'' [''Pedestrian'', ''Tree'']]
   \<and> round (real (length (spec_class_records demo_corpus ''Car''))
            * spec_ratio [''Car'', ''Pedestrian''] demo_corpus ''Car'') = 2
   \<and> round (real (length (spec_class_records demo_corpus ''Pedestrian''))
            * spec_ratio [''Car'', ''Pedestrian''] demo_corpus ''Pedestrian'') = 2
   \<and> round (float_product (length [''Car'', ''Pedestrian''])
              (length (spec_class_records demo_corpus ''Car''))
              (spec_memberships [''Car'', ''Pedestrian''] demo_corpus)) = 2
   \<and> round (float_product (length [''Car'', ''Pedestrian''])
              (length (spec_class_records demo_corpus ''Pedestrian''))
              (spec_memberships [''Car'', ''Pedestrian''] demo_corpus)) = 2"
proof -
  let ?cn = "[''Car'', ''Pedestrian'']"
  let ?t = "spec_memberships ?cn demo_corpus"
  let ?ratio = "\<lambda>k. float_ratio (length ?cn) (length (spec_class_records demo_corpus k)) ?t"
  have cn: "class_names demo_ds = Some ?cn"
    and logger: "has_logger demo_ds"
    by (simp_all add: demo_ds_def)
  have ne: "?cn \<noteq> ([] :: string list)"
    by simp
  have dup: "0 < ?t"
    by (simp add: demo_memberships)
  let ?out = "[demo_info ''1'' [''Car'', ''Car''], demo_info ''4'' [''Pedestrian'', ''Tree'']]"
  have n1: "py_int (fl64 (fl64 (real (length (spec_class_records demo_corpus ''Car'')))
                          * ?ratio ''Car'')) = 1"
    unfolding float_product_def[symmetric] demo_products by (simp add: py_int_def)
  have n2: "py_int (fl64 (fl64 (real (length (spec_class_records demo_corpus ''Pedestrian'')))
                          * ?ratio ''Pedestrian'')) = 1"
    unfolding float_product_def[symmetric] demo_products by (simp add: py_int_def)
  have keys: "map (\<lambda>k. (spec_class_records demo_corpus k, ?ratio k)) (dict_keys ?cn)
      = [(spec_class_records demo_corpus ''Car'', ?ratio ''Car''),
         (spec_class_records demo_corpus ''Pedestrian'', ?ratio ''Pedestrian'')]"
    by (simp only: demo_keys list.map)
  have d1: "random_choice demo_tape 0 (spec_class_records demo_corpus ''Car'') 1
      = Inr [demo_info ''1'' [''Car'', ''Car'']]"
    by (simp add: random_choice_def demo_class_records demo_tape_def)
  have d2: "random_choice demo_tape (Suc 0) (spec_class_records demo_corpus ''Pedestrian'') 1
      = Inr [demo_info ''4'' [''Pedestrian'', ''Tree'']]"
    by (simp add: random_choice_def demo_class_records demo_tape_def)
  have sample: "sample_classes demo_tape 0
          (map (\<lambda>k. (spec_class_records demo_corpus k, ?ratio k)) (dict_keys ?cn)) = Inr ?out"
    unfolding keys sample_classes.simps n1 n2 d1 on_success_def sum.case
    by (simp add: d2)
  have annos: "\<forall>frame\<in>set ?out. annos frame \<noteq> None"
    by (simp add: demo_info_def)
  have again: "group_infos ?cn ?out (map (\<lambda>nm. (nm, [])) (dict_keys ?cn))
      = Inr (map (\<lambda>k. (k, spec_class_records ?out k)) (dict_keys ?cn))"
    by (rule group_infos_classes[OF annos])
  have run: "balanced_infos_resampling demo_tape demo_ds demo_corpus = Inr ?out"
    unfolding balanced_infos_resampling_run[OF cn ne demo_corpus_annos dup] sample
      on_success_def sum.case again
    using logger by simp
  have r1: "round (real (length (spec_class_records demo_corpus ''Car''))
            * spec_ratio ?cn demo_corpus ''Car'') = 2"
    by (simp add: demo_class_records demo_ratios round_def)
  have r2: "round (real (length (spec_class_records demo_corpus ''Pedestrian''))
            * spec_ratio ?cn demo_corpus ''Pedestrian'') = 2"
    by (simp add: demo_class_records demo_ratios round_def)
  have r3: "round (float_product (length ?cn)
              (length (spec_class_records demo_corpus ''Car'')) ?t) = 2"
    unfolding demo_products by (simp add: round_def)
  have r4: "round (float_product (length ?cn)
              (length (spec_class_records demo_corpus ''Pedestrian'')) ?t) = 2"
    unfolding demo_products by (simp add: round_def)
  show ?thesis
    using run r1 r2 r3 r4 by (intro conjI)
qed

text \<open>Outside these hypotheses the resampler raises: on a corpus with no record the
  share of every class is a division by zero.\<close>

lemma balanced_infos_resampling_empty_corpus:
  assumes "class_names ds = Some cls_names" "cls_names \<noteq> []"
  shows "balanced_infos_resampling tape ds [] = Inl ZeroDivisionError"
proof -
  have zero: "sum_list (map (\<lambda>(k, v). length v) (map (\<lambda>nm. (nm, [])) (dict_keys cls_names))) = 0"
    by (simp add: comp_def)
  show ?thesis
    using assms(2)
    by (simp add: balanced_infos_resampling_def assms(1) on_success_def zero dict_keys_empty)
qed

subsection \<open>The ground-truth database builder\<close>

text \<open>The dictionary \<open>all_db_infos\<close> after a run of insertions.\<close>

lemma map_of_dict_add:
  "map_of (dict_add k v d) =
     (map_of d)(k \<mapsto> (case map_of d k of None \<Rightarrow> [v] | Some vs \<Rightarrow> vs @ [v]))"
  by (induction d) (auto simp: fun_eq_iff)

lemma dict_get_dict_add:
  "dict_get (dict_add k v d) k' = dict_get d k' @ (if k' = k then [v] else [])"
  by (simp add: dict_get_def map_of_dict_add split: option.splits)

lemma dict_get_fold:
  "dict_get (fold (\<lambda>e d'. dict_add (key e) e d') es d) k
     = dict_get d k @ filter (\<lambda>e. key e = k) es"
  by (induction es arbitrary: d) (auto simp: dict_get_dict_add)

lemma set_values_dict_add:
  "set (concat (map snd (dict_add k v d))) = insert v (set (concat (map snd d)))"
proof (induction d)
  case Nil
  show ?case by simp
next
  case (Cons p d)
  obtain k' vs where p: "p = (k', vs)"
    by (cases p)
  show ?case
    using Cons.IH by (cases "k' = k") (simp_all add: p)
qed

lemma set_values_fold:
  "set (concat (map snd (fold (\<lambda>e d'. dict_add (key e) e d') es d)))
     = set (concat (map snd d)) \<union> set es"
proof (induction es arbitrary: d)
  case Nil
  show ?case by simp
next
  case (Cons e es)
  have "set (concat (map snd (fold (\<lambda>e d'. dict_add (key e) e d') (e # es) d)))
      = set (concat (map snd (fold (\<lambda>e d'. dict_add (key e) e d') es (dict_add (key e) e d))))"
    by simp
  also have "\<dots> = set (concat (map snd (dict_add (key e) e d))) \<union> set es"
    by (rule Cons.IH)
  also have "\<dots> = insert e (set (concat (map snd d))) \<union> set es"
    by (simp only: set_values_dict_add)
  also have "\<dots> = set (concat (map snd d)) \<union> set (e # es)"
    by simp
  finally show ?case .
qed

text \<open>The loop over the objects of one frame: one blob per object, and one entry per
  object that passes the class filter.\<close>

lemma gt_objects_run:
  assumes "\<forall>i\<in>set ixs. i < length (name a) \<and> i < length (gt_boxes_lidar a)
             \<and> i < length (difficulty a) \<and> i < length (bbox a) \<and> i < length (score a)"
  shows "gt_objects ops ds split_name used_classes sample_idx points a ixs st =
     Inr \<lparr> blobs = blobs st @ map (\<lambda>i. (blob_path ds split_name sample_idx a i,
                                         crop_points ops points (gt_boxes_lidar a ! i))) ixs,
           all_db_infos =
             fold (\<lambda>e d. dict_add (db_name e) e d)
               (map (\<lambda>i. make_entry split_name sample_idx a i
                           (crop_points ops points (gt_boxes_lidar a ! i)))
                  (filter (\<lambda>i. used_classes = None \<or> name a ! i \<in> set (the used_classes)) ixs))
               (all_db_infos st) \<rparr>"
  using assms
proof (induction ixs arbitrary: st)
  case Nil
  show ?case by simp
next
  case (Cons i ixs)
  have nm: "db_name (make_entry split_name sample_idx a i gt_points) = name a ! i" for gt_points
    by (simp add: make_entry_def)
  have rest: "\<forall>i\<in>set ixs. i < length (name a) \<and> i < length (gt_boxes_lidar a)
             \<and> i < length (difficulty a) \<and> i < length (bbox a) \<and> i < length (score a)"
    using Cons.prems by simp
  show ?case
    using Cons.prems by (simp add: Cons.IH[OF rest] Let_def nm)
qed

lemma gt_frames_run:
  assumes "\<forall>frame\<in>set infos. db_ready ds fs frame"
  shows "gt_frames ops ds fs split_name used_classes infos st =
     Inr \<lparr> blobs = blobs st @ concat (map (\<lambda>frame.
                 map (object_blob ops ds fs split_name frame)
                   [0..<length (gt_boxes_lidar (frame_annos frame))]) infos),
           all_db_infos =
             fold (\<lambda>e d. dict_add (db_name e) e d)
               (concat (map (\<lambda>frame.
                  map (object_entry ops ds fs split_name frame)
                    (filter (\<lambda>i. used_classes = None
                                \<or> name (frame_annos frame) ! i \<in> set (the used_classes))
                       [0..<length (gt_boxes_lidar (frame_annos frame))])) infos))
               (all_db_infos st) \<rparr>"
  using assms
proof (induction infos arbitrary: st)
  case Nil
  show ?case by simp
next
  case (Cons frame infos)
  from Cons.prems have ready: "db_ready ds fs frame"
    and rest: "\<forall>frame\<in>set infos. db_ready ds fs frame"
    by simp_all
  from ready obtain pts a where pts: "get_lidar ds fs (pc_lidar_idx frame) = Inr pts"
    and a: "annos frame = Some a"
    and lens: "length (gt_boxes_lidar a) \<le> length (name a)"
      "length (gt_boxes_lidar a) \<le> length (difficulty a)"
      "length (gt_boxes_lidar a) \<le> length (bbox a)"
      "length (gt_boxes_lidar a) \<le> length (score a)"
    by (auto simp: db_ready_def split: sum.splits option.splits)
  have in_range: "\<forall>i\<in>set [0..<length (gt_boxes_lidar a)].
       i < length (name a) \<and> i < length (gt_boxes_lidar a)
       \<and> i < length (difficulty a) \<and> i < length (bbox a) \<and> i < length (score a)"
    using lens by auto
  have fp: "frame_points ds fs frame = pts" and fa: "frame_annos frame = a"
    by (simp_all add: frame_points_def frame_annos_def pts a)
  show ?case
    by (simp add: pts a on_success_def Let_def gt_objects_run[OF in_range] Cons.IH[OF rest]
        object_blob_def object_entry_def fp fa)
qed

lemma create_groundtruth_database_run:
  assumes "\<forall>frame\<in>set infos. db_ready ds fs frame"
  shows "create_groundtruth_database ops ds fs infos used_classes split_name =
     Inr \<lparr> blobs = concat (map (\<lambda>frame.
                 map (object_blob ops ds fs split_name frame)
                   [0..<length (gt_boxes_lidar (frame_annos frame))]) infos),
           all_db_infos =
             fold (\<lambda>e d. dict_add (db_name e) e d)
               (concat (map (\<lambda>frame.
                  map (object_entry ops ds fs split_name frame)
                    (filter (\<lambda>i. used_classes = None
                                \<or> name (frame_annos frame) ! i \<in> set (the used_classes))
                       [0..<length (gt_boxes_lidar (frame_annos frame))])) infos))
               [] \<rparr>"
  by (simp add: create_groundtruth_database_def gt_frames_run[OF assms])

lemma index_entries_run:
  assumes "\<forall>frame\<in>set infos. db_ready ds fs frame"
    and "create_groundtruth_database ops ds fs infos used_classes split_name = Inr st"
  shows "set (index_entries st) =
     set (concat (map (\<lambda>frame.
            map (object_entry ops ds fs split_name frame)
              (filter (\<lambda>i. used_classes = None
                          \<or> name (frame_annos frame) ! i \<in> set (the used_classes))
                 [0..<length (gt_boxes_lidar (frame_annos frame))])) infos))"
proof -
  have st: "all_db_infos st =
     fold (\<lambda>e d. dict_add (db_name e) e d)
       (concat (map (\<lambda>frame.
          map (object_entry ops ds fs split_name frame)
            (filter (\<lambda>i. used_classes = None
                        \<or> name (frame_annos frame) ! i \<in> set (the used_classes))
               [0..<length (gt_boxes_lidar (frame_annos frame))])) infos))
       []"
    using assms(2) unfolding create_groundtruth_database_run[OF assms(1)] by auto
  show ?thesis
    unfolding index_entries_def st by (simp only: set_values_fold) simp
qed

lemma db_name_object_entry:
  "db_name (object_entry ops ds fs split_name frame i) = name (frame_annos frame) ! i"
  by (simp add: object_entry_def make_entry_def)

lemma str_nat_digits: "str_nat 0 = ''0''" "str_nat 1 = ''1''" "str_nat (Suc 0) = ''1''"
  by (simp_all add: str_nat.simps)

lemma object_blob_eq:
  "object_blob ops ds fs split_name frame =
     (\<lambda>i. (blob_path ds split_name (pc_lidar_idx frame) (frame_annos frame) i,
           map (recenter (center (gt_boxes_lidar (frame_annos frame) ! i)))
             (filter (\<lambda>p. points_in_boxes_cpu ops (xyz p)
                            (gt_boxes_lidar (frame_annos frame) ! i) > 0)
                (frame_points ds fs frame))))"
  by (rule ext) (simp add: object_blob_def crop_points_def)

lemma demo_frame_points: "frame_points demo_ds demo_fs (demo_info ''7'' names) = demo_points"
  by (simp add: frame_points_def demo_info_def demo_lidar)

lemma demo_info_ready: "db_ready demo_ds demo_fs (demo_info ''7'' [''Car'', ''Pedestrian''])"
  by (simp add: db_ready_def demo_info_def demo_lidar demo_annos_def)

text \<open>
  What the builder does in general. For info records that carry what the builder reads,
  it returns; for every row \<open>i\<close> of \<open>gt_boxes_lidar\<close> of every record, in this order, it
  writes one blob: the points of the frame whose entry in the mask of the oriented-box
  test is positive, each with the centre of the box subtracted from its coordinates and
  its remaining feature unchanged. The blob is written whatever the class filter is. The
  entry of row \<open>i\<close> is in the index exactly when no filter was given or the name at
  position \<open>i\<close> of the array \<open>name\<close> is in the filter, and the list of a class in the
  index holds the entries of that name in the order of discovery.
\<close>

lemma gt_database_blobs_and_index:
  assumes "\<forall>frame\<in>set infos. db_ready ds fs frame"
  shows "\<exists>st.
     create_groundtruth_database ops ds fs infos used_classes split_name = Inr st
     \<and> blobs st =
         concat (map (\<lambda>frame. map (\<lambda>i.
             (blob_path ds split_name (pc_lidar_idx frame) (frame_annos frame) i,
              map (recenter (center (gt_boxes_lidar (frame_annos frame) ! i)))
                (filter (\<lambda>p. points_in_boxes_cpu ops (xyz p)
                               (gt_boxes_lidar (frame_annos frame) ! i) > 0)
                   (frame_points ds fs frame))))
           [0..<length (gt_boxes_lidar (frame_annos frame))]) infos)
     \<and> (\<forall>frame\<in>set infos. \<forall>i<length (gt_boxes_lidar (frame_annos frame)).
           object_entry ops ds fs split_name frame i \<in> set (index_entries st)
             \<longleftrightarrow> (used_classes = None
                  \<or> name (frame_annos frame) ! i \<in> set (the used_classes)))
     \<and> (\<forall>k. dict_get (all_db_infos st) k =
           filter (\<lambda>e. db_name e = k)
             (concat (map (\<lambda>frame.
                map (object_entry ops ds fs split_name frame)
                  (filter (\<lambda>i. used_classes = None
                              \<or> name (frame_annos frame) ! i \<in> set (the used_classes))
                     [0..<length (gt_boxes_lidar (frame_annos frame))])) infos)))"
proof -
  let ?cond = "\<lambda>frame i. used_classes = None
                 \<or> name (frame_annos frame) ! i \<in> set (the used_classes)"
  let ?entries = "concat (map (\<lambda>frame.
                map (object_entry ops ds fs split_name frame)
                  (filter (?cond frame) [0..<length (gt_boxes_lidar (frame_annos frame))])) infos)"
  let ?st = "\<lparr> blobs = concat (map (\<lambda>frame.
                 map (object_blob ops ds fs split_name frame)
                   [0..<length (gt_boxes_lidar (frame_annos frame))]) infos),
               all_db_infos = fold (\<lambda>e d. dict_add (db_name e) e d) ?entries [] \<rparr>"
  have run: "create_groundtruth_database ops ds fs infos used_classes split_name = Inr ?st"
    by (rule create_groundtruth_database_run[OF assms])
  have written: "blobs ?st =
         concat (map (\<lambda>frame. map (\<lambda>i.
             (blob_path ds split_name (pc_lidar_idx frame) (frame_annos frame) i,
              map (recenter (center (gt_boxes_lidar (frame_annos frame) ! i)))
                (filter (\<lambda>p. points_in_boxes_cpu ops (xyz p)
                               (gt_boxes_lidar (frame_annos frame) ! i) > 0)
                   (frame_points ds fs frame))))
           [0..<length (gt_boxes_lidar (frame_annos frame))]) infos)"
    by (simp add: object_blob_eq)
  have entries: "set (index_entries ?st) = set ?entries"
    by (rule index_entries_run[OF assms run])
  have indexed: "object_entry ops ds fs split_name frame i \<in> set (index_entries ?st)
             \<longleftrightarrow> ?cond frame i"
    if frame: "frame \<in> set infos" and i: "i < length (gt_boxes_lidar (frame_annos frame))"
    for frame i
  proof
    assume "object_entry ops ds fs split_name frame i \<in> set (index_entries ?st)"
    then obtain frame' i' where same:
      "object_entry ops ds fs split_name frame i = object_entry ops ds fs split_name frame' i'"
      and cond: "?cond frame' i'"
      unfolding entries by auto
    have "name (frame_annos frame) ! i = name (frame_annos frame') ! i'"
      using arg_cong[OF same, of db_name] by (simp only: db_name_object_entry)
    then show "?cond frame i"
      using cond by simp
  next
    assume "?cond frame i"
    then show "object_entry ops ds fs split_name frame i \<in> set (index_entries ?st)"
      unfolding entries using frame i by auto
  qed
  have lookup: "dict_get (all_db_infos ?st) k = filter (\<lambda>e. db_name e = k) ?entries" for k
  proof -
    have "dict_get (all_db_infos ?st) k
        = dict_get (fold (\<lambda>e d. dict_add (db_name e) e d) ?entries []) k"
      by simp
    also have "\<dots> = dict_get [] k @ filter (\<lambda>e. db_name e = k) ?entries"
      by (rule dict_get_fold)
    also have "dict_get ([] :: (string \<times> db_info list) list) k = []"
      by (simp add: dict_get_def)
    finally show ?thesis by simp
  qed
  show ?thesis
    using run written indexed lookup by (intro exI[of _ ?st] conjI ballI allI impI)
qed

text \<open>The example of the specification: a point at \<open>(11, 5, 2)\<close> in a box centred at
  \<open>(10, 5, 2)\<close> is stored as \<open>(1, 0, 0)\<close> with its intensity.\<close>

lemma gt_database_blobs_and_index_example:
  "\<exists>st.
     create_groundtruth_database demo_ops demo_ds demo_fs
       [demo_info ''7'' [''Car'', ''Pedestrian'']] (Some [''Car'']) ''train'' = Inr st
     \<and> blobs st =
         [(''data/gt_database/7_Car_0.bin'', [(1, 0, 0, 1 / 2), (2, 0, 0, 1 / 4)]),
          (''data/gt_database/7_Pedestrian_1.bin'', [(0, 0, 0, 0)])]
     \<and> object_entry demo_ops demo_ds demo_fs ''train'' (demo_info ''7'' [''Car'', ''Pedestrian'']) 0
          \<in> set (index_entries st)
     \<and> object_entry demo_ops demo_ds demo_fs ''train'' (demo_info ''7'' [''Car'', ''Pedestrian'']) 1
          \<notin> set (index_entries st)"
proof -
  let ?frame = "demo_info ''7'' [''Car'', ''Pedestrian'']"
  have ready: "\<forall>frame\<in>set [?frame]. db_ready demo_ds demo_fs frame"
    by (simp add: demo_info_ready)
  have annos: "frame_annos ?frame = demo_annos [''Car'', ''Pedestrian'']"
    by (simp add: frame_annos_def demo_info_def)
  have two: "[0..<2] = [0, Suc 0]"
    by (simp add: numeral_2_eq_2)
  have idx: "pc_lidar_idx ?frame = ''7''"
    by (simp add: demo_info_def)
  have n: "length (gt_boxes_lidar (frame_annos ?frame)) = 2"
    by (simp add: annos demo_annos_def)
  have paths:
    "blob_path demo_ds ''train'' (pc_lidar_idx ?frame) (frame_annos ?frame) 0
       = ''data/gt_database/7_Car_0.bin''"
    "blob_path demo_ds ''train'' (pc_lidar_idx ?frame) (frame_annos ?frame) (Suc 0)
       = ''data/gt_database/7_Pedestrian_1.bin''"
    by (simp_all add: annos idx blob_path_def blob_name_def database_dir_def path_join_def
        demo_ds_def demo_annos_def str_nat_digits)
  have crops:
    "map (recenter (center (gt_boxes_lidar (frame_annos ?frame) ! 0)))
       (filter (\<lambda>p. points_in_boxes_cpu demo_ops (xyz p) (gt_boxes_lidar (frame_annos ?frame) ! 0) > 0)
          (frame_points demo_ds demo_fs ?frame))
     = [(1, 0, 0, 1 / 2), (2, 0, 0, 1 / 4)]"
    "map (recenter (center (gt_boxes_lidar (frame_annos ?frame) ! Suc 0)))
       (filter (\<lambda>p. points_in_boxes_cpu demo_ops (xyz p) (gt_boxes_lidar (frame_annos ?frame) ! Suc 0) > 0)
          (frame_points demo_ds demo_fs ?frame))
     = [(0, 0, 0, 0)]"
    by (simp_all add: annos demo_annos_def demo_frame_points demo_points_def demo_ops_def
        in_box_def xyz_def recenter_def demo_car_box_def demo_pedestrian_box_def)
  have names: "name (frame_annos ?frame) ! 0 = ''Car''"
    "name (frame_annos ?frame) ! Suc 0 = ''Pedestrian''"
    by (simp_all add: annos demo_annos_def)
  from gt_database_blobs_and_index [OF ready, of demo_ops "Some [''Car'']" "''train''"]
  obtain st where run: "create_groundtruth_database demo_ops demo_ds demo_fs [?frame]
        (Some [''Car'']) ''train'' = Inr st"
    and written: "blobs st =
         concat (map (\<lambda>frame. map (\<lambda>i.
             (blob_path demo_ds ''train'' (pc_lidar_idx frame) (frame_annos frame) i,
              map (recenter (center (gt_boxes_lidar (frame_annos frame) ! i)))
                (filter (\<lambda>p. points_in_boxes_cpu demo_ops (xyz p)
                               (gt_boxes_lidar (frame_annos frame) ! i) > 0)
                   (frame_points demo_ds demo_fs frame))))
           [0..<length (gt_boxes_lidar (frame_annos frame))]) [?frame])"
    and indexed: "\<forall>frame\<in>set [?frame]. \<forall>i<length (gt_boxes_lidar (frame_annos frame)).
           object_entry demo_ops demo_ds demo_fs ''train'' frame i \<in> set (index_entries st)
             \<longleftrightarrow> (Some [''Car''] = None
                  \<or> name (frame_annos frame) ! i \<in> set (the (Some [''Car''])))"
    by (elim exE conjE) (rule that)
  have b: "blobs st =
         [(''data/gt_database/7_Car_0.bin'', [(1, 0, 0, 1 / 2), (2, 0, 0, 1 / 4)]),
          (''data/gt_database/7_Pedestrian_1.bin'', [(0, 0, 0, 0)])]"
    unfolding written by (simp add: n two paths crops)
  have e0: "object_entry demo_ops demo_ds demo_fs ''train'' ?frame 0 \<in> set (index_entries st)"
    using indexed[rule_format, of ?frame 0] by (simp add: n names)
  have e1: "object_entry demo_ops demo_ds demo_fs ''train'' ?frame 1 \<notin> set (index_entries st)"
    using indexed[rule_format, of ?frame 1] by (simp add: n names)
  show ?thesis
    using run b e0 e1 by (intro exI[of _ st] conjI)
qed

lemma demo_index: "non_ignored_index demo_objs = [0, 2]"
proof -
  have "[0..<3] = [0, Suc 0, 2]"
    by (simp add: numeral_3_eq_3 numeral_2_eq_2)
  then show ?thesis
    by (simp add: non_ignored_index_def demo_objs_def demo_car_def demo_dontcare_def
        demo_pedestrian_def)
qed

lemma process_demo_frame7:
  "process_single_scene demo_ops demo_ds demo_fs True True ''7'' = Inr demo_frame7"
proof -
  have boxes: "make_gt_boxes_lidar demo_calib (raw_annotations demo_objs) [0, 2]
      = [demo_car_box, demo_pedestrian_box]"
    using make_gt_boxes_lidar_filter[of demo_calib demo_objs]
    by (simp only: demo_index demo_boxes)
  have raw: "raw_annotations demo_objs =
     \<lparr> name = [''Car'', ''DontCare'', ''Pedestrian''], truncated = [0, - 1, 0],
       occluded = [0, - 1, 1], alpha = [0, - 10, 0],
       bbox = [(1, 2, 3, 4), (5, 6, 7, 8), (2, 2, 4, 6)],
       dimensions = [(4, 2, 2), (- 1, - 1, - 1), (1, 2, 1)],
       location = [(10, 5, 1), (- 1000, - 1000, - 1000), (3, 4, 1)],
       rotation_y = [0, - 10, 0], score = [1, 1, 1], difficulty = [0, - 1, 1],
       index = [], gt_boxes_lidar = [], num_points_in_gt = None \<rparr>"
    by (simp add: raw_annotations_def demo_objs_def demo_car_def demo_dontcare_def
        demo_pedestrian_def)
  show ?thesis
    unfolding process_single_scene_labelled
      [OF demo_shape demo_get_calib demo_label, of True demo_points demo_ops, OF demo_lidar]
      demo_index boxes demo_pts_fov demo_counts(1)
    by (simp add: raw demo_frame7_def to_int32_def demo_ops_def in_box_def xyz_def
        demo_car_box_def demo_pedestrian_box_def)
qed

lemma demo_frame7_ready: "db_ready demo_ds demo_fs demo_frame7"
  by (simp add: db_ready_def demo_frame7_def demo_lidar)

lemma demo_frame7_facts:
  "frame_annos demo_frame7 = the (annos demo_frame7)"
  "pc_lidar_idx demo_frame7 = ''7''"
  "frame_points demo_ds demo_fs demo_frame7 = demo_points"
  "name (frame_annos demo_frame7) = [''Car'', ''DontCare'', ''Pedestrian'']"
  "gt_boxes_lidar (frame_annos demo_frame7) = [demo_car_box, demo_pedestrian_box]"
  "num_points_in_gt (frame_annos demo_frame7) = Some [1, 1, - 1]"
  by (simp_all add: frame_annos_def frame_points_def demo_frame7_def demo_lidar)

lemma demo_crops:
  "crop_points demo_ops demo_points demo_car_box = [(1, 0, 0, 1 / 2), (2, 0, 0, 1 / 4)]"
  "crop_points demo_ops demo_points demo_pedestrian_box = [(0, 0, 0, 0)]"
  by (simp_all add: crop_points_def demo_points_def demo_ops_def in_box_def xyz_def
      recenter_def demo_car_box_def demo_pedestrian_box_def)

text \<open>
  C5. The frame \<open>7\<close> of the example has the labelled objects \<open>Car\<close>, \<open>DontCare\<close>,
  \<open>Pedestrian\<close>, in this order; the info builder gives it the names of all three and the
  boxes of the car and of the pedestrian. The database builder, run on this record with
  the class filter \<open>Pedestrian\<close>, crops and recentres the points of both boxes and writes
  both blobs. But it reads the name of the object of box \<open>i\<close> at position \<open>i\<close> of the raw
  names: the pedestrian, at row 1, is taken for \<open>DontCare\<close>, its blob is named so, and
  it gets no index entry although its class is in the filter.
\<close>

theorem gt_database_names_misaligned:
  "process_single_scene demo_ops demo_ds demo_fs True True ''7'' = Inr demo_frame7
   \<and> name (frame_annos demo_frame7) = [''Car'', ''DontCare'', ''Pedestrian'']
   \<and> gt_boxes_lidar (frame_annos demo_frame7) = [demo_car_box, demo_pedestrian_box]
   \<and> create_groundtruth_database demo_ops demo_ds demo_fs [demo_frame7]
        (Some [''Pedestrian'']) ''train'' =
      Inr \<lparr> blobs =
              [(''data/gt_database/7_Car_0.bin'', [(1, 0, 0, 1 / 2), (2, 0, 0, 1 / 4)]),
               (''data/gt_database/7_DontCare_1.bin'', [(0, 0, 0, 0)])],
            all_db_infos = [] \<rparr>"
proof -
  have ready: "\<forall>frame\<in>set [demo_frame7]. db_ready demo_ds demo_fs frame"
    by (simp add: demo_frame7_ready)
  have two: "[0..<2] = [0, Suc 0]"
    by (simp add: numeral_2_eq_2)
  have root: "root_path demo_ds = ''data''"
    by (simp add: demo_ds_def)
  have run: "create_groundtruth_database demo_ops demo_ds demo_fs [demo_frame7]
        (Some [''Pedestrian'']) ''train'' =
      Inr \<lparr> blobs =
              [(''data/gt_database/7_Car_0.bin'', [(1, 0, 0, 1 / 2), (2, 0, 0, 1 / 4)]),
               (''data/gt_database/7_DontCare_1.bin'', [(0, 0, 0, 0)])],
            all_db_infos = [] \<rparr>"
    unfolding create_groundtruth_database_run[OF ready]
    by (simp add: demo_frame7_facts(2-5) two object_blob_def blob_path_def blob_name_def
        database_dir_def path_join_def root str_nat_digits demo_crops)
  show ?thesis
    using process_demo_frame7 demo_frame7_facts(4,5) run by (intro conjI)
qed

lemma in_concat_map: "x \<in> set (f a) \<Longrightarrow> a \<in> set xs \<Longrightarrow> x \<in> set (concat (map f xs))"
  by auto

lemma path_join_assoc: "path_join (path_join a b) c = path_join a (path_join b c)"
  by (simp add: path_join_def)

lemma filter_mask_select_le:
  "length (filter P (mask_select xs flags)) \<le> length (filter P xs)"
proof (induction xs arbitrary: flags)
  case Nil
  show ?case by (simp add: mask_select_def)
next
  case (Cons x xs)
  show ?case
  proof (cases flags)
    case Nil
    then show ?thesis by (simp add: mask_select_def)
  next
    case (Cons f fs)
    have "length (filter P (mask_select xs fs)) \<le> length (filter P xs)"
      by (rule Cons.IH)
    then show ?thesis
      using Cons by (simp add: mask_select_def)
  qed
qed

lemma object_entry_fields:
  "db_image_idx (object_entry ops ds fs split_name frame i) = pc_lidar_idx frame"
  "db_gt_idx (object_entry ops ds fs split_name frame i) = i"
  "db_box3d_lidar (object_entry ops ds fs split_name frame i)
     = gt_boxes_lidar (frame_annos frame) ! i"
  "db_num_points_in_gt (object_entry ops ds fs split_name frame i)
     = length (filter (\<lambda>p. points_in_boxes_cpu ops (xyz p)
                            (gt_boxes_lidar (frame_annos frame) ! i) > 0)
                 (frame_points ds fs frame))"
  "path_join (root_path ds) (db_path (object_entry ops ds fs split_name frame i))
     = fst (object_blob ops ds fs split_name frame i)"
  "length (snd (object_blob ops ds fs split_name frame i))
     = db_num_points_in_gt (object_entry ops ds fs split_name frame i)"
  by (simp_all add: object_entry_def make_entry_def crop_points_def object_blob_def
      blob_path_def path_join_assoc)

text \<open>
  C10. For info records that carry what the builder reads, the database builder returns,
  and every entry of its index belongs to a record of the input: the entry's
  \<open>num_points_in_gt\<close> is the number of points of the whole lidar file of that frame whose
  entry in the mask of the oriented-box test of the entry's box is positive (no FOV mask
  is applied), and it is the number of points of the blob written to the entry's path;
  when no two blobs share a path, this is the content of the file at the end. The points
  that pass a FOV mask are among the points of the file, so where the hull test of the
  info builder and the oriented-box test agree on a box, the count in the annotations is
  at most the count in the database.
\<close>

theorem gt_database_point_counts:
  assumes "\<forall>frame\<in>set infos. db_ready ds fs frame"
  shows "\<exists>st.
     create_groundtruth_database ops ds fs infos used_classes split_name = Inr st
     \<and> (\<forall>e\<in>set (index_entries st). \<exists>frame\<in>set infos.
           db_image_idx e = pc_lidar_idx frame
           \<and> get_lidar ds fs (pc_lidar_idx frame) = Inr (frame_points ds fs frame)
           \<and> db_num_points_in_gt e =
               length (filter (\<lambda>p. points_in_boxes_cpu ops (xyz p) (db_box3d_lidar e) > 0)
                         (frame_points ds fs frame))
           \<and> (\<exists>blob. (path_join (root_path ds) (db_path e), blob) \<in> set (blobs st)
                  \<and> length blob = db_num_points_in_gt e)
           \<and> (distinct (map fst (blobs st)) \<longrightarrow>
                (\<exists>blob. blob_store st (path_join (root_path ds) (db_path e)) = Some blob
                   \<and> length blob = db_num_points_in_gt e)))
     \<and> (\<forall>pts flags b.
           (\<forall>p. in_hull ops p (boxes_to_corners_3d ops b) \<longleftrightarrow> points_in_boxes_cpu ops p b > 0)
           \<longrightarrow> length (filter (\<lambda>p. in_hull ops (xyz p) (boxes_to_corners_3d ops b))
                          (mask_select pts flags))
                 \<le> length (filter (\<lambda>p. points_in_boxes_cpu ops (xyz p) b > 0) pts))"
proof -
  let ?cond = "\<lambda>frame i. used_classes = None
                 \<or> name (frame_annos frame) ! i \<in> set (the used_classes)"
  let ?blobs = "concat (map (\<lambda>frame.
                 map (object_blob ops ds fs split_name frame)
                   [0..<length (gt_boxes_lidar (frame_annos frame))]) infos)"
  let ?entries = "concat (map (\<lambda>frame.
                map (object_entry ops ds fs split_name frame)
                  (filter (?cond frame) [0..<length (gt_boxes_lidar (frame_annos frame))])) infos)"
  let ?st = "\<lparr> blobs = ?blobs,
               all_db_infos = fold (\<lambda>e d. dict_add (db_name e) e d) ?entries [] \<rparr>"
  have run: "create_groundtruth_database ops ds fs infos used_classes split_name = Inr ?st"
    by (rule create_groundtruth_database_run[OF assms])
  have entries: "set (index_entries ?st) = set ?entries"
    by (rule index_entries_run[OF assms run])
  have each: "\<exists>frame\<in>set infos.
           db_image_idx e = pc_lidar_idx frame
           \<and> get_lidar ds fs (pc_lidar_idx frame) = Inr (frame_points ds fs frame)
           \<and> db_num_points_in_gt e =
               length (filter (\<lambda>p. points_in_boxes_cpu ops (xyz p) (db_box3d_lidar e) > 0)
                         (frame_points ds fs frame))
           \<and> (\<exists>blob. (path_join (root_path ds) (db_path e), blob) \<in> set (blobs ?st)
                  \<and> length blob = db_num_points_in_gt e)
           \<and> (distinct (map fst (blobs ?st)) \<longrightarrow>
                (\<exists>blob. blob_store ?st (path_join (root_path ds) (db_path e)) = Some blob
                   \<and> length blob = db_num_points_in_gt e))"
    if "e \<in> set (index_entries ?st)" for e
  proof -
    from that obtain frame i where frame: "frame \<in> set infos"
      and i: "i < length (gt_boxes_lidar (frame_annos frame))"
      and e: "e = object_entry ops ds fs split_name frame i"
      unfolding entries by auto
    let ?blob = "object_blob ops ds fs split_name frame i"
    have lidar: "get_lidar ds fs (pc_lidar_idx frame) = Inr (frame_points ds fs frame)"
      using assms frame by (auto simp: db_ready_def frame_points_def split: sum.splits)
    have "?blob \<in> set (map (object_blob ops ds fs split_name frame)
                           [0..<length (gt_boxes_lidar (frame_annos frame))])"
      using i by simp
    then have written: "?blob \<in> set ?blobs"
      using frame by (rule in_concat_map)
    have path: "path_join (root_path ds) (db_path e) = fst ?blob"
      and size: "length (snd ?blob) = db_num_points_in_gt e"
      by (simp_all only: e object_entry_fields)
    have in_blobs: "(path_join (root_path ds) (db_path e), snd ?blob) \<in> set (blobs ?st)"
      using written by (simp add: path)
    have stored: "blob_store ?st (path_join (root_path ds) (db_path e)) = Some (snd ?blob)"
      if "distinct (map fst (blobs ?st))"
    proof -
      have "distinct (map fst (rev (blobs ?st)))"
        using that by (simp add: rev_map[symmetric])
      then show ?thesis
        unfolding blob_store_def using in_blobs by simp
    qed
    show ?thesis
      using frame lidar in_blobs size stored
      by (intro bexI[of _ frame] conjI impI exI[of _ "snd ?blob"])
         (simp_all add: e object_entry_fields)
  qed
  have fov: "length (filter (\<lambda>p. in_hull ops (xyz p) (boxes_to_corners_3d ops b))
                          (mask_select pts flags))
                 \<le> length (filter (\<lambda>p. points_in_boxes_cpu ops (xyz p) b > 0) pts)"
    if "\<forall>p. in_hull ops p (boxes_to_corners_3d ops b) \<longleftrightarrow> points_in_boxes_cpu ops p b > 0"
    for pts flags b
    using filter_mask_select_le[of "\<lambda>p. points_in_boxes_cpu ops (xyz p) b > 0" pts flags]
    by (simp add: that)
  show ?thesis
    using run each fov by (intro exI[of _ ?st] conjI ballI allI impI)
qed

theorem gt_database_point_counts_witness:
  "\<exists>st e.
     create_groundtruth_database demo_ops demo_ds demo_fs [demo_frame7] None ''train'' = Inr st
     \<and> e \<in> set (index_entries st)
     \<and> db_gt_idx e = 0
     \<and> db_box3d_lidar e = gt_boxes_lidar (frame_annos demo_frame7) ! 0
     \<and> db_num_points_in_gt e = 2
     \<and> num_points_in_gt (frame_annos demo_frame7) = Some [1, 1, - 1]
     \<and> (\<exists>blob. (''data/gt_database/7_Car_0.bin'', blob) \<in> set (blobs st) \<and> length blob = 2)"
proof -
  let ?e = "object_entry demo_ops demo_ds demo_fs ''train'' demo_frame7 0"
  have ready: "\<forall>frame\<in>set [demo_frame7]. db_ready demo_ds demo_fs frame"
    by (simp add: demo_frame7_ready)
  from gt_database_point_counts [OF ready, of demo_ops None "''train''"]
  obtain st where run: "create_groundtruth_database demo_ops demo_ds demo_fs [demo_frame7]
        None ''train'' = Inr st"
    and each: "\<forall>e\<in>set (index_entries st). \<exists>frame\<in>set [demo_frame7].
           db_image_idx e = pc_lidar_idx frame
           \<and> get_lidar demo_ds demo_fs (pc_lidar_idx frame) = Inr (frame_points demo_ds demo_fs frame)
           \<and> db_num_points_in_gt e =
               length (filter (\<lambda>p. points_in_boxes_cpu demo_ops (xyz p) (db_box3d_lidar e) > 0)
                         (frame_points demo_ds demo_fs frame))
           \<and> (\<exists>blob. (path_join (root_path demo_ds) (db_path e), blob) \<in> set (blobs st)
                  \<and> length blob = db_num_points_in_gt e)
           \<and> (distinct (map fst (blobs st)) \<longrightarrow>
                (\<exists>blob. blob_store st (path_join (root_path demo_ds) (db_path e)) = Some blob
                   \<and> length blob = db_num_points_in_gt e))"
    by (elim exE conjE) (rule that)
  have "?e \<in> set (concat (map (\<lambda>frame.
            map (object_entry demo_ops demo_ds demo_fs ''train'' frame)
              (filter (\<lambda>i. (None :: string list option) = None
                          \<or> name (frame_annos frame) ! i \<in> set (the None))
                 [0..<length (gt_boxes_lidar (frame_annos frame))])) [demo_frame7]))"
    by (simp add: demo_frame7_facts(5))
  then have member: "?e \<in> set (index_entries st)"
    by (simp only: index_entries_run[OF ready run])
  have box: "db_box3d_lidar ?e = demo_car_box"
    by (simp add: object_entry_fields demo_frame7_facts(5))
  have root: "root_path demo_ds = ''data''"
    by (simp add: demo_ds_def)
  have "path_join (root_path demo_ds) (db_path ?e)
      = fst (object_blob demo_ops demo_ds demo_fs ''train'' demo_frame7 0)"
    by (rule object_entry_fields(5))
  also have "\<dots> = ''data/gt_database/7_Car_0.bin''"
    by (simp add: object_blob_def blob_path_def blob_name_def
        database_dir_def path_join_def demo_frame7_facts(2,4) str_nat_digits root)
  finally have path:
    "path_join (root_path demo_ds) (db_path ?e) = ''data/gt_database/7_Car_0.bin''" .
  have spec: "\<exists>frame\<in>set [demo_frame7].
           db_image_idx ?e = pc_lidar_idx frame
           \<and> get_lidar demo_ds demo_fs (pc_lidar_idx frame) = Inr (frame_points demo_ds demo_fs frame)
           \<and> db_num_points_in_gt ?e =
               length (filter (\<lambda>p. points_in_boxes_cpu demo_ops (xyz p) demo_car_box > 0)
                         (frame_points demo_ds demo_fs frame))
           \<and> (\<exists>blob. (''data/gt_database/7_Car_0.bin'', blob) \<in> set (blobs st)
                  \<and> length blob = db_num_points_in_gt ?e)
           \<and> (distinct (map fst (blobs st)) \<longrightarrow>
                (\<exists>blob. blob_store st ''data/gt_database/7_Car_0.bin'' = Some blob
                   \<and> length blob = db_num_points_in_gt ?e))"
    using each[rule_format, OF member] unfolding box path .
  have count: "db_num_points_in_gt ?e =
               length (filter (\<lambda>p. points_in_boxes_cpu demo_ops (xyz p) demo_car_box > 0)
                         demo_points)"
    using spec by (simp add: demo_frame7_facts(3))
  have blob: "\<exists>blob. (''data/gt_database/7_Car_0.bin'', blob) \<in> set (blobs st)
                  \<and> length blob = db_num_points_in_gt ?e"
    using spec by (elim bexE conjE)
  have two: "db_num_points_in_gt ?e = 2"
    unfolding count
    by (simp add: demo_points_def demo_ops_def in_box_def xyz_def demo_car_box_def)
  show ?thesis
    using run member box blob demo_frame7_facts(5,6)
    by (intro exI[of _ st] exI[of _ ?e] conjI)
       (simp_all add: two object_entry_fields(2))
qed

subsection \<open>The prediction serializer\<close>

lemma digit_nth: "k < 10 \<Longrightarrow> is_digit (''0123456789'' ! k)"
  unfolding is_digit_def by (rule nth_mem) simp

lemma str_nat_digits_all: "list_all is_digit (str_nat n) \<and> str_nat n \<noteq> []"
proof (induction n rule: str_nat.induct)
  case (1 n)
  show ?case
  proof (cases "n < 10")
    case True
    then show ?thesis
      by (subst (1 2) str_nat.simps) (simp add: digit_nth)
  next
    case False
    then show ?thesis
      using "1.IH" by (subst (1 2) str_nat.simps) (simp add: digit_nth)
  qed
qed

lemma length_str_nat: "n < 10 ^ k \<Longrightarrow> 0 < k \<Longrightarrow> length (str_nat n) \<le> k"
proof (induction n arbitrary: k rule: str_nat.induct)
  case (1 n)
  show ?case
  proof (cases "n < 10")
    case True
    then show ?thesis
      using "1.prems" by (subst str_nat.simps) simp
  next
    case False
    obtain j where k: "k = Suc j"
      using "1.prems"(2) by (cases k) simp_all
    have j: "0 < j"
      using False "1.prems"(1) k by (cases j) simp_all
    have "n div 10 < 10 ^ j"
      using "1.prems"(1) k by (simp add: less_mult_imp_div_less mult.commute)
    then have "length (str_nat (n div 10)) \<le> j"
      using "1.IH"[OF False _ j] by simp
    then show ?thesis
      using False k by (subst str_nat.simps) simp
  qed
qed

lemma pad4_digits:
  assumes "n < 10000"
  shows "length (pad4 n) = 4" and "list_all is_digit (pad4 n)"
proof -
  have "length (str_nat n) \<le> 4"
    using length_str_nat[of n 4] assms by simp
  then show "length (pad4 n) = 4"
    by (simp add: pad4_def)
  have zero: "is_digit (CHR ''0'')"
    by (simp add: is_digit_def)
  show "list_all is_digit (pad4 n)"
    using str_nat_digits_all[of n] zero by (auto simp: pad4_def list_all_iff)
qed

lemma is_digit_not_special:
  "is_digit c \<Longrightarrow> c \<noteq> CHR '' '' \<and> c \<noteq> CHR ''-'' \<and> c \<noteq> CHR ''.''"
  by (auto simp: is_digit_def)

text \<open>The shape of a formatted number.\<close>

lemma fmt4_shape:
  "\<exists>whole frac. fmt4 x = (if x < 0 then ''-'' else []) @ whole @ ''.'' @ frac
      \<and> whole \<noteq> [] \<and> list_all is_digit whole \<and> length frac = 4 \<and> list_all is_digit frac"
proof -
  let ?n = "nat (round_half_even (\<bar>x\<bar> * 10000))"
  have small: "?n mod 10000 < 10000"
    by simp
  show ?thesis
    using str_nat_digits_all[of "?n div 10000"] pad4_digits[OF small]
    by (intro exI[of _ "str_nat (?n div 10000)"] exI[of _ "pad4 (?n mod 10000)"])
       (simp add: fmt4_def Let_def)
qed

lemma fmt4_no_space: "CHR '' '' \<notin> set (fmt4 x)"
proof -
  obtain whole frac where s: "fmt4 x = (if x < 0 then ''-'' else []) @ whole @ ''.'' @ frac"
    and d: "list_all is_digit whole" "list_all is_digit frac"
    using fmt4_shape[of x] by blast
  have "CHR '' '' \<notin> set whole" "CHR '' '' \<notin> set frac"
    using d is_digit_not_special by (auto simp: list_all_iff)
  then show ?thesis
    by (simp add: s)
qed

lemma fmt4_four_decimals: "four_decimals (fmt4 x)"
proof -
  obtain whole frac where s: "fmt4 x = (if x < 0 then ''-'' else []) @ whole @ ''.'' @ frac"
    and w: "whole \<noteq> []" "list_all is_digit whole"
    and f: "length frac = 4" "list_all is_digit frac"
    using fmt4_shape[of x] by blast
  obtain c cs where whole: "whole = c # cs"
    using w(1) by (cases whole) simp_all
  have c: "c \<noteq> CHR ''-''"
    using w(2) is_digit_not_special[of c] by (simp add: whole)
  have body: "(case fmt4 x of [] \<Rightarrow> [] | c # cs \<Rightarrow> if c = CHR ''-'' then cs else fmt4 x)
      = whole @ ''.'' @ frac"
    using c by (simp add: s whole)
  have len: "length (whole @ ''.'' @ frac) - 5 = length whole"
    "length (whole @ ''.'' @ frac) - 4 = Suc (length whole)"
    using f(1) by simp_all
  show ?thesis
    unfolding four_decimals_def body Let_def len
    using w(2) f by (simp add: nth_append whole)
qed

text \<open>Splitting a line at its spaces.\<close>

lemma split_spaces_word: "CHR '' '' \<notin> set w \<Longrightarrow> split_spaces w = [w]"
  by (induction w) auto

lemma split_spaces_append:
  "CHR '' '' \<notin> set w \<Longrightarrow> split_spaces (w @ CHR '' '' # rest) = w # split_spaces rest"
  by (induction w) auto

lemma collect_map: "\<forall>x\<in>set xs. f x = Inr (g x) \<Longrightarrow> collect f xs = Inr (map g xs)"
  by (induction xs) simp_all

lemma length_detection_fields: "length (detection_fields d idx) = 16"
  by (simp add: detection_fields_def split: prod.splits)

lemma four_decimals_detection_fields:
  "list_all four_decimals (drop 3 (detection_fields d idx))"
  by (simp add: detection_fields_def fmt4_four_decimals split: prod.splits)

text \<open>The printed line, split at its spaces, gives the sixteen fields.\<close>

lemma split_format_detection:
  assumes "CHR '' '' \<notin> set nm"
  shows "split_spaces (format_detection nm al (x1, y1, x2, y2) (l, h, w) (x, y, z) rot sc) =
     [nm, ''-1'', ''-1'', fmt4 al, fmt4 x1, fmt4 y1, fmt4 x2, fmt4 y2, fmt4 h, fmt4 w, fmt4 l,
      fmt4 x, fmt4 y, fmt4 z, fmt4 rot, fmt4 sc]"
  using assms
  by (simp add: format_detection_def split_spaces_append split_spaces_word fmt4_no_space)

lemma detection_line_fields:
  assumes "idx < length (pd_bbox d)"
    and "length (pd_name d) = length (pd_bbox d)"
    and "length (pd_alpha d) = length (pd_bbox d)"
    and "length (pd_dimensions d) = length (pd_bbox d)"
    and "length (pd_location d) = length (pd_bbox d)"
    and "length (pd_rotation_y d) = length (pd_bbox d)"
    and "length (pd_score d) = length (pd_bbox d)"
    and "CHR '' '' \<notin> set (pd_name d ! idx)"
  shows "\<exists>line. detection_line d idx = Inr line \<and> split_spaces line = detection_fields d idx"
proof -
  obtain x1 y1 x2 y2 where bb: "pd_bbox d ! idx = (x1, y1, x2, y2)"
    by (cases "pd_bbox d ! idx")
  obtain l h w where dims: "pd_dimensions d ! idx = (l, h, w)"
    by (cases "pd_dimensions d ! idx")
  obtain x y z where lc: "pd_location d ! idx = (x, y, z)"
    by (cases "pd_location d ! idx")
  have "detection_line d idx =
      Inr (format_detection (pd_name d ! idx) (pd_alpha d ! idx) (x1, y1, x2, y2) (l, h, w)
             (x, y, z) (pd_rotation_y d ! idx) (pd_score d ! idx))"
    using assms(1-7) by (simp add: detection_line_def bb dims lc)
  moreover have "split_spaces (format_detection (pd_name d ! idx) (pd_alpha d ! idx)
             (x1, y1, x2, y2) (l, h, w) (x, y, z) (pd_rotation_y d ! idx) (pd_score d ! idx))
      = detection_fields d idx"
    by (simp only: split_format_detection[OF assms(8)] detection_fields_def bb dims lc
        prod.case)
  ultimately show ?thesis
    by simp
qed

text \<open>
  C6, amended. When an output path is given, the file of a frame has one line per
  detection. For a detection whose class name has no space, the line consists of exactly
  16 fields separated by single spaces: the name, two fields \<open>-1\<close>, alpha, the four
  coordinates of the 2D box, the dimensions in the order height, width, length, the
  three coordinates of the location, the yaw and the score; each of the thirteen numbers
  is printed with four decimals.
\<close>

theorem prediction_lines_sixteen_fields:
  assumes "i < length frame_ids"
    and "length (pd_name (single i box_dict)) = length (pd_bbox (single i box_dict))"
    and "length (pd_alpha (single i box_dict)) = length (pd_bbox (single i box_dict))"
    and "length (pd_dimensions (single i box_dict)) = length (pd_bbox (single i box_dict))"
    and "length (pd_location (single i box_dict)) = length (pd_bbox (single i box_dict))"
    and "length (pd_rotation_y (single i box_dict)) = length (pd_bbox (single i box_dict))"
    and "length (pd_score (single i box_dict)) = length (pd_bbox (single i box_dict))"
    and "\<forall>nm\<in>set (pd_name (single i box_dict)). CHR '' '' \<notin> set nm"
  shows "\<exists>lines.
     prediction_step single frame_ids (Some out) (i, box_dict) =
       Inr ((single i box_dict) \<lparr> pd_frame_id := Some (frame_ids ! i) \<rparr>,
            Some (path_join out (frame_ids ! i @ ''.txt''), lines))
     \<and> length lines = length (pd_bbox (single i box_dict))
     \<and> (\<forall>idx<length (pd_bbox (single i box_dict)).
           split_spaces (lines ! idx) = detection_fields (single i box_dict) idx
           \<and> length (split_spaces (lines ! idx)) = 16
           \<and> list_all four_decimals (drop 3 (split_spaces (lines ! idx))))"
proof -
  let ?d = "(single i box_dict) \<lparr> pd_frame_id := Some (frame_ids ! i) \<rparr>"
  let ?n = "length (pd_bbox (single i box_dict))"
  have line: "\<exists>line. detection_line ?d idx = Inr line
      \<and> split_spaces line = detection_fields ?d idx" if "idx < ?n" for idx
  proof (rule detection_line_fields)
    show "CHR '' '' \<notin> set (pd_name ?d ! idx)"
      using that assms(2,8) by simp
  qed (use that assms(2-7) in simp_all)
  define line_of where
    "line_of idx = (case detection_line ?d idx of Inr line \<Rightarrow> line | Inl e \<Rightarrow> [])" for idx
  have line_of: "detection_line ?d idx = Inr (line_of idx)
      \<and> split_spaces (line_of idx) = detection_fields ?d idx" if "idx < ?n" for idx
    using line[OF that] by (auto simp: line_of_def)
  have "\<forall>idx\<in>set [0..<?n]. detection_line ?d idx = Inr (line_of idx)"
    using line_of by simp
  then have all: "detection_lines ?d = Inr (map line_of [0..<?n])"
    unfolding detection_lines_def by (simp add: collect_map)
  have same: "detection_fields ?d idx = detection_fields (single i box_dict) idx" for idx
    by (simp add: detection_fields_def)
  have step: "prediction_step single frame_ids (Some out) (i, box_dict) =
       Inr (?d, Some (path_join out (frame_ids ! i @ ''.txt''), map line_of [0..<?n]))"
    using assms(1) by (simp add: prediction_step_def Let_def all on_success_def)
  have each: "\<forall>idx<?n.
           split_spaces (map line_of [0..<?n] ! idx) = detection_fields (single i box_dict) idx
           \<and> length (split_spaces (map line_of [0..<?n] ! idx)) = 16
           \<and> list_all four_decimals (drop 3 (split_spaces (map line_of [0..<?n] ! idx)))"
    using line_of
    by (simp add: same length_detection_fields four_decimals_detection_fields)
  have len: "length (map line_of [0..<?n]) = ?n"
    by simp
  show ?thesis
    using step len each by (intro exI[of _ "map line_of [0..<?n]"] conjI)
qed

lemma replicate_small: "replicate 2 c = [c, c]" "replicate 3 c = [c, c, c]"
  by (simp_all add: numeral_2_eq_2 numeral_3_eq_3)

lemma demo_fmt4:
  "fmt4 (- (157 / 100)) = ''-1.5700''" "fmt4 1 = ''1.0000''" "fmt4 2 = ''2.0000''"
  "fmt4 (7 / 2) = ''3.5000''" "fmt4 (17 / 4) = ''4.2500''" "fmt4 (3 / 2) = ''1.5000''"
  "fmt4 4 = ''4.0000''" "fmt4 10 = ''10.0000''" "fmt4 5 = ''5.0000''"
  "fmt4 (1 / 32) = ''0.0312''" "fmt4 (24999 / 25000) = ''1.0000''"
  by (simp_all add: fmt4_def round_half_even_def pad4_def str_nat.simps Let_def
      replicate_small)

lemma demo_detection_fields:
  "detection_fields demo_pred 0 =
     [''Car'', ''-1'', ''-1'', ''-1.5700'', ''1.0000'', ''2.0000'', ''3.5000'', ''4.2500'',
      ''1.5000'', ''2.0000'', ''4.0000'', ''10.0000'', ''5.0000'', ''2.0000'', ''0.0312'',
      ''1.0000'']"
  by (simp add: detection_fields_def demo_pred_def demo_fmt4)

theorem prediction_lines_sixteen_fields_witness:
  "\<exists>lines.
     prediction_step (\<lambda>i (box_dict :: unit). demo_pred) [''7''] (Some ''out'') (0, ()) =
       Inr (demo_pred \<lparr> pd_frame_id := Some ''7'' \<rparr>, Some (''out/7.txt'', lines))
     \<and> length lines = 1
     \<and> split_spaces (lines ! 0) =
         [''Car'', ''-1'', ''-1'', ''-1.5700'', ''1.0000'', ''2.0000'', ''3.5000'', ''4.2500'',
          ''1.5000'', ''2.0000'', ''4.0000'', ''10.0000'', ''5.0000'', ''2.0000'', ''0.0312'',
          ''1.0000'']
     \<and> length (split_spaces (lines ! 0)) = 16"
proof -
  have lens: "length (pd_bbox demo_pred) = 1" "length (pd_name demo_pred) = 1"
    "length (pd_alpha demo_pred) = 1" "length (pd_dimensions demo_pred) = 1"
    "length (pd_location demo_pred) = 1" "length (pd_rotation_y demo_pred) = 1"
    "length (pd_score demo_pred) = 1"
    by (simp_all add: demo_pred_def)
  have names: "\<forall>nm\<in>set (pd_name demo_pred). CHR '' '' \<notin> set nm"
    by (simp add: demo_pred_def)
  have first: "(0 :: nat) < length [''7'']"
    by simp
  from prediction_lines_sixteen_fields
    [of 0 "[''7'']" "\<lambda>i (box_dict :: unit). demo_pred" "()" "''out''", OF first]
  obtain lines where step:
    "prediction_step (\<lambda>i (box_dict :: unit). demo_pred) [''7''] (Some ''out'') (0, ()) =
       Inr (demo_pred \<lparr> pd_frame_id := Some ([''7''] ! 0) \<rparr>,
            Some (path_join ''out'' ([''7''] ! 0 @ ''.txt''), lines))"
    and len: "length lines = length (pd_bbox demo_pred)"
    and each: "\<forall>idx<length (pd_bbox demo_pred).
           split_spaces (lines ! idx) = detection_fields demo_pred idx
           \<and> length (split_spaces (lines ! idx)) = 16
           \<and> list_all four_decimals (drop 3 (split_spaces (lines ! idx)))"
    using names by (simp only: lens) blast
  have pos: "0 < length (pd_bbox demo_pred)"
    by (simp add: lens)
  note first_line = each[rule_format, of 0, OF pos]
  have fields: "split_spaces (lines ! 0) = detection_fields demo_pred 0"
    by (rule first_line[THEN conjunct1])
  have sixteen: "length (split_spaces (lines ! 0)) = 16"
    by (rule first_line[THEN conjunct2, THEN conjunct1])
  show ?thesis
    using step len fields sixteen
    by (intro exI[of _ lines]) (simp add: lens path_join_def demo_detection_fields)
qed

text \<open>
  C6 as stated fails: the line of the example detection has 16 fields, not 14; the
  format has fourteen arguments and the two constant fields \<open>-1\<close>.
\<close>

theorem prediction_line_fourteen_fields_counterexample:
  "detection_lines demo_pred =
     Inr [''Car -1 -1 -1.5700 1.0000 2.0000 3.5000 4.2500 1.5000 2.0000 4.0000 10.0000 5.0000 2.0000 0.0312 1.0000'']
   \<and> length (split_spaces
        ''Car -1 -1 -1.5700 1.0000 2.0000 3.5000 4.2500 1.5000 2.0000 4.0000 10.0000 5.0000 2.0000 0.0312 1.0000'')
      = 16"
proof -
  have one: "[0..<1] = [0]"
    by simp
  have line: "detection_line demo_pred 0 =
     Inr ''Car -1 -1 -1.5700 1.0000 2.0000 3.5000 4.2500 1.5000 2.0000 4.0000 10.0000 5.0000 2.0000 0.0312 1.0000''"
    by (simp add: detection_line_def demo_pred_def format_detection_def demo_fmt4)
  have lines: "detection_lines demo_pred =
     Inr [''Car -1 -1 -1.5700 1.0000 2.0000 3.5000 4.2500 1.5000 2.0000 4.0000 10.0000 5.0000 2.0000 0.0312 1.0000'']"
    unfolding detection_lines_def
    by (simp add: demo_pred_def one) (simp add: line[unfolded demo_pred_def])
  have count: "length (split_spaces
        ''Car -1 -1 -1.5700 1.0000 2.0000 3.5000 4.2500 1.5000 2.0000 4.0000 10.0000 5.0000 2.0000 0.0312 1.0000'')
      = 16"
    by simp
  show ?thesis
    using lines count by (rule conjI)
qed

subsection \<open>Claims about the evaluation\<close>

text \<open>On a corpus that is not empty, the first record decides: without annotations
  there, the result is the empty one.\<close>

lemma evaluation_first_without_annos:
  assumes "coda_infos ds = first_info # others" and "annos first_info = None"
  shows "evaluation kitti_eval ds det_annos cls_names = Inr (None, [])"
  using assms by (simp add: evaluation_def)

text \<open>
  C7. On an empty corpus, which holds no ground-truth annotation at all, \<open>evaluation\<close>
  reads \<open>coda_infos[0]\<close> and raises \<open>IndexError\<close>, whatever the detections and the class
  names are; it does not return the empty result.
\<close>

theorem evaluation_empty_corpus_raises:
  "evaluation kitti_eval (ds \<lparr> coda_infos := [] \<rparr>) det_annos cls_names = Inl IndexError"
  by (simp add: evaluation_def)

end
